theory Spec2Isabelle
  imports Complex_Main "HOL-Library.Sublist" "HOL-Library.Multiset"
    "HOL-Library.Product_Lexorder"
begin

section \<open>NFTViewer: a shallow embedding of \<^verbatim>\<open>src/NFTViewer.tsx\<close>\<close>

text \<open>
  The component reads a collection from an ERC-721 contract, fetches one metadata
  document per owned index, asks a marketplace for a price per surviving entry and
  derives a filtered and sorted view. Every network read is an oracle of the
  \<open>world\<close> record below and may throw; every throw of the source is a value \<open>Inl e\<close>,
  every \<^verbatim>\<open>try/catch\<close> a case distinction on it.

  JavaScript numbers are modelled by exact rationals (\<open>rat\<close>), \<^verbatim>\<open>NaN\<close> by \<open>None\<close> where
  an expression can produce it; rounding, infinities and signed zero of IEEE doubles
  are not modelled: a quotient that a double rounds to \<open>0\<close> or to infinity keeps its
  exact value here. Strings are lists of characters.
\<close>

subsection \<open>Strings\<close>

text \<open>
  \<^verbatim>\<open>String.prototype.replace(pattern, replacement)\<close> with a string pattern: the first
  occurrence of the pattern, wherever it starts, is replaced; a string without an
  occurrence is returned as it is. (The replacement used by the source has no \<^verbatim>\<open>$\<close>
  pattern.)
\<close>

fun replace :: "string \<Rightarrow> string \<Rightarrow> string \<Rightarrow> string" where
  "replace [] pat rep = (if pat = [] then rep else [])"
| "replace (c # cs) pat rep =
     (if prefix pat (c # cs) then rep @ drop (length pat) (c # cs)
      else c # replace cs pat rep)"

text \<open>
  The content-address resolver of the source is the expression
  \<^verbatim>\<open>x.replace('ipfs://', 'https://ipfs.io/ipfs/')\<close>, used for the token URI (line 152)
  and for the image field (line 158).
\<close>

definition ipfs_scheme :: string where
  "ipfs_scheme = ''ipfs://''"

definition ipfs_gateway :: string where
  "ipfs_gateway = ''https://ipfs.io/ipfs/''"

definition resolve :: "string \<Rightarrow> string" where
  "resolve reference = replace reference ipfs_scheme ipfs_gateway"

text \<open>\<open>occurs_at pat s k\<close>: the pattern starts at position \<open>k\<close> of \<open>s\<close>.\<close>

definition occurs_at :: "string \<Rightarrow> string \<Rightarrow> nat \<Rightarrow> bool" where
  "occurs_at pat s k = (k \<le> length s \<and> prefix pat (drop k s))"

fun occurs :: "string \<Rightarrow> string \<Rightarrow> bool" where
  "occurs pat [] = (pat = [])"
| "occurs pat (c # cs) = (prefix pat (c # cs) \<or> occurs pat cs)"


text \<open>\<^verbatim>\<open>String.prototype.includes\<close>.\<close>

definition includes_string :: "string \<Rightarrow> string \<Rightarrow> bool" where
  "includes_string s searchString = occurs searchString s"

text \<open>
  \<^verbatim>\<open>String.prototype.toLowerCase\<close>, on the ASCII letters; other letters, which JavaScript
  lowers too, are left as they are.
\<close>

definition toLowerCase :: "string \<Rightarrow> string" where
  "toLowerCase s =
     map (\<lambda>c. if 65 \<le> (of_char c :: nat) \<and> (of_char c :: nat) \<le> 90
              then char_of ((of_char c :: nat) + 32) else c) s"

text \<open>\<^verbatim>\<open>x || d\<close> for an optional string \<open>x\<close>: absent and empty are both falsy.\<close>

definition or_else :: "string option \<Rightarrow> string \<Rightarrow> string" where
  "or_else x d = (case x of None \<Rightarrow> d | Some v \<Rightarrow> if v = [] then d else v)"

subsection \<open>Numbers and their text\<close>

definition isDigit :: "char \<Rightarrow> bool" where
  "isDigit c = (48 \<le> (of_char c :: nat) \<and> (of_char c :: nat) \<le> 57)"

definition digitVal :: "char \<Rightarrow> nat" where
  "digitVal c = (of_char c :: nat) - 48"

definition digitsVal :: "string \<Rightarrow> nat" where
  "digitsVal ds = foldl (\<lambda>a c. 10 * a + digitVal c) 0 ds"

definition isSpace :: "char \<Rightarrow> bool" where
  "isSpace c = ((of_char c :: nat) = 32 \<or> (9 \<le> (of_char c :: nat) \<and> (of_char c :: nat) \<le> 13))"

definition parseSign :: "string \<Rightarrow> int \<times> string" where
  "parseSign s =
     (case s of
        [] \<Rightarrow> (1, s)
      | c # cs \<Rightarrow> if c = CHR ''-'' then (- 1, cs) else if c = CHR ''+'' then (1, cs) else (1, s))"

definition parseExponent :: "string \<Rightarrow> int" where
  "parseExponent s =
     (case s of
        [] \<Rightarrow> 0
      | c # cs \<Rightarrow>
          if c = CHR ''e'' \<or> c = CHR ''E''
          then (let (sg, r) = parseSign cs; ex = takeWhile isDigit r
                in if ex = [] then 0 else sg * int (digitsVal ex))
          else 0)"

text \<open>
  \<^verbatim>\<open>parseFloat\<close>: leading white space, a sign, the longest decimal literal (digits, a
  fraction, an exponent); \<open>None\<close> is \<^verbatim>\<open>NaN\<close>. The literal \<^verbatim>\<open>Infinity\<close> has no rational
  value: it is read as \<^verbatim>\<open>NaN\<close> here, where JavaScript reads the number infinity.
\<close>

definition parseFloat :: "string \<Rightarrow> rat option" where
  "parseFloat str =
     (let (sg, s) = parseSign (dropWhile isSpace str);
          ip = takeWhile isDigit s;
          r = dropWhile isDigit s;
          fp = (case r of [] \<Rightarrow> [] | c # cs \<Rightarrow> if c = CHR ''.'' then takeWhile isDigit cs else []);
          t = (case r of [] \<Rightarrow> [] | c # cs \<Rightarrow> if c = CHR ''.'' then dropWhile isDigit cs else r)
      in if ip = [] \<and> fp = [] then None
         else Some (of_int sg * of_nat (digitsVal (ip @ fp)) / 10 ^ length fp
                    * 10 powi parseExponent t))"

text \<open>
  \<^verbatim>\<open>parseInt\<close> with the default radix, on decimal text (token ids are printed in decimal
  by \<^verbatim>\<open>BigNumber.toString\<close>; a \<^verbatim>\<open>0x\<close> prefix is not modelled). The value is the exact
  integer, where JavaScript rounds it to a double: two token ids above \<open>2 ^ 53\<close> that
  round to the same double differ here.
\<close>

definition parseInt :: "string \<Rightarrow> int option" where
  "parseInt str =
     (let (sg, s) = parseSign (dropWhile isSpace str); ds = takeWhile isDigit s
      in if ds = [] then None else Some (sg * int (digitsVal ds)))"

text \<open>\<^verbatim>\<open>BigNumber.toString\<close>: the decimal digits of a \<^verbatim>\<open>uint256\<close>.\<close>

definition digitChar :: "nat \<Rightarrow> char" where
  "digitChar d = ''0123456789'' ! d"

fun toString :: "nat \<Rightarrow> string" where
  "toString n =
     (if n < 10 then [digitChar n]
      else toString (n div 10) @ [digitChar (n mod 10)])"

declare toString.simps [simp del]

text \<open>
  \<^verbatim>\<open>BigNumber.toNumber\<close> (ethers v5) throws when the value does not fit 53 bits.
\<close>

datatype exn =
    TypeError
  | CallException string
  | FetchError string
  | SyntaxError
  | NumericFault
  | FailedToFetchOpenSeaData

definition toNumber :: "nat \<Rightarrow> exn + nat" where
  "toNumber b = (if b < 2 ^ 53 then Inr b else Inl NumericFault)"

subsection \<open>Data\<close>

record attribute =
  trait_type :: string
  trait_value :: string

text \<open>
  \<^verbatim>\<open>interface NFT\<close>; an optional field (\<^verbatim>\<open>?\<close>) is an \<open>option\<close>, \<open>None\<close> for \<^verbatim>\<open>undefined\<close>.
\<close>

record NFT =
  tokenId :: string
  name :: string
  image_url :: string
  description :: string
  attributes :: "attribute list option"
  collectionName :: "string option"
  collectionSymbol :: "string option"
  lowestPrice :: "rat option"
  currency :: "string option"

text \<open>The metadata document, in the shape the source reads it.\<close>

record metadata =
  metadata_name :: "string option"
  metadata_image :: "string option"
  metadata_description :: "string option"
  metadata_attributes :: "attribute list option"

text \<open>
  The marketplace response. \<open>current_price\<close> is the text of an amount in base units;
  \<open>decimals\<close> is a non-negative integer when it is present. \<open>None\<close> is a field that is
  not there (\<^verbatim>\<open>undefined\<close>); a field with the JSON value \<^verbatim>\<open>null\<close> is not modelled.
\<close>

record payment_token =
  decimals :: "nat option"
  symbol :: "string option"

record sell_order =
  current_price :: "string option"
  payment_token_contract :: "payment_token option"

record opensea_data =
  sell_orders :: "sell_order list option"

record response =
  ok :: bool
  json :: "exn + opensea_data option"

record price_data =
  price :: rat
  price_currency :: "string option"

text \<open>
  The world outside the component, for one contract address and one wallet address.
  A contract read or a fetch either throws (\<open>Inl\<close>) or returns (\<open>Inr\<close>);
  \<open>fetch_metadata url\<close> is \<^verbatim>\<open>fetch(url)\<close> followed by \<^verbatim>\<open>response.json()\<close>, with \<open>None\<close>
  for the JSON value \<^verbatim>\<open>null\<close>. Constructing the provider and the contract object is
  part of the first read.

  The reads are oracles: the model does not look into the contract library. The
  constant \<^verbatim>\<open>ERC721_ABI\<close> of the source declares \<^verbatim>\<open>balanceOf\<close>, \<^verbatim>\<open>ownerOf\<close>, \<^verbatim>\<open>tokenURI\<close>,
  \<^verbatim>\<open>name\<close> and \<^verbatim>\<open>symbol\<close>, and no \<^verbatim>\<open>tokenOfOwnerByIndex\<close>; a contract object that offers
  only the declared functions makes that read throw at every index, which is the
  oracle that is \<open>Inl\<close> everywhere. The properties below hold for every oracle.
\<close>

record world =
  contract_name :: "exn + string"
  contract_symbol :: "exn + string"
  balanceOf :: "exn + nat"
  tokenOfOwnerByIndex :: "nat \<Rightarrow> exn + nat"
  tokenURI :: "nat \<Rightarrow> exn + string"
  fetch_metadata :: "string \<Rightarrow> exn + metadata option"
  fetch_opensea :: "string \<Rightarrow> exn + response"

text \<open>
  What \<^verbatim>\<open>console.error\<close> receives. The per-item tasks run concurrently, so the console
  is a multiset: the order of its lines is not fixed by the source.
\<close>

datatype log_entry =
    ErrorFetchingOpenSeaPrice exn
  | ErrorFetchingNFTs exn
  | ErrorFetchingNFT nat exn

text \<open>
  The component state that a run reads and writes, and the console. (The filter string
  and the sort key, also state of the component, are arguments of the view.)
\<close>

record state =
  nfts :: "NFT list"
  loading :: bool
  error :: "string option"
  priceLoading :: bool
  console :: "log_entry multiset"

subsection \<open>Price resolution: \<^verbatim>\<open>fetchOpenSeaPrice\<close> (lines 52-83)\<close>

text \<open>\<^verbatim>\<open>data.sell_orders?.[0]\<close>.\<close>

definition first_order :: "opensea_data \<Rightarrow> sell_order option" where
  "first_order data =
     (case sell_orders data of None \<Rightarrow> None | Some [] \<Rightarrow> None | Some (order # rest) \<Rightarrow> Some order)"

text \<open>
  Lines 71-73, the constant \<^verbatim>\<open>lowestPrice\<close>: \<open>Inr None\<close> is \<^verbatim>\<open>null\<close> or \<^verbatim>\<open>NaN\<close> (both
  falsy), \<open>Inl TypeError\<close> the read of \<^verbatim>\<open>decimals\<close> on a missing
  \<^verbatim>\<open>payment_token_contract\<close>.
\<close>

definition lowest_price :: "opensea_data \<Rightarrow> exn + rat option" where
  "lowest_price data =
     (case first_order data of
        None \<Rightarrow> Inr None
      | Some order \<Rightarrow>
          (case current_price order of
             None \<Rightarrow> Inr None
           | Some cp \<Rightarrow>
               if cp = [] then Inr None
               else (case payment_token_contract order of
                       None \<Rightarrow> Inl TypeError
                     | Some token \<Rightarrow>
                         Inr (case parseFloat cp of
                                None \<Rightarrow> None
                              | Some amount \<Rightarrow>
                                  (case decimals token of
                                     None \<Rightarrow> None
                                   | Some d \<Rightarrow> Some (amount / 10 ^ d))))))"

text \<open>Line 77: \<^verbatim>\<open>data.sell_orders[0].payment_token_contract.symbol\<close>.\<close>

definition first_symbol :: "opensea_data \<Rightarrow> exn + string option" where
  "first_symbol data =
     (case first_order data of
        None \<Rightarrow> Inl TypeError
      | Some order \<Rightarrow>
          (case payment_token_contract order of
             None \<Rightarrow> Inl TypeError
           | Some token \<Rightarrow> Inr (symbol token)))"

text \<open>The body of the \<^verbatim>\<open>try\<close> block.\<close>

definition fetchOpenSeaPrice_try :: "world \<Rightarrow> string \<Rightarrow> exn + price_data option" where
  "fetchOpenSeaPrice_try w tid =
     (case fetch_opensea w tid of
        Inl e \<Rightarrow> Inl e
      | Inr resp \<Rightarrow>
          if \<not> ok resp then Inl FailedToFetchOpenSeaData
          else (case json resp of
                  Inl e \<Rightarrow> Inl e
                | Inr None \<Rightarrow> Inl TypeError
                | Inr (Some data) \<Rightarrow>
                    (case lowest_price data of
                       Inl e \<Rightarrow> Inl e
                     | Inr None \<Rightarrow> Inr None
                     | Inr (Some p) \<Rightarrow>
                         if p = 0 then Inr None
                         else (case first_symbol data of
                                 Inl e \<Rightarrow> Inl e
                               | Inr cur \<Rightarrow> Inr (Some \<lparr>price = p, price_currency = cur\<rparr>)))))"

text \<open>The whole function: the \<^verbatim>\<open>catch\<close> logs and returns \<^verbatim>\<open>null\<close>.\<close>

definition fetchOpenSeaPrice :: "world \<Rightarrow> string \<Rightarrow> price_data option \<times> log_entry multiset" where
  "fetchOpenSeaPrice w tid =
     (case fetchOpenSeaPrice_try w tid of
        Inl e \<Rightarrow> (None, {#ErrorFetchingOpenSeaPrice e#})
      | Inr r \<Rightarrow> (r, {#}))"

subsection \<open>Metadata resolution: \<^verbatim>\<open>fetchNFTMetadata\<close> (lines 141-168)\<close>

text \<open>Lines 155-163, the entry built from a token id and its document.\<close>

definition make_entry :: "nat \<Rightarrow> metadata \<Rightarrow> string \<Rightarrow> string \<Rightarrow> NFT" where
  "make_entry tid md cName cSymbol =
     \<lparr>tokenId = toString tid,
      name = or_else (metadata_name md) (''#'' @ toString tid),
      image_url = or_else (map_option resolve (metadata_image md)) [],
      description = or_else (metadata_description md) [],
      attributes = metadata_attributes md,
      collectionName = Some cName,
      collectionSymbol = Some cSymbol,
      lowestPrice = None,
      currency = None\<rparr>"

definition fetchNFTMetadata_try :: "world \<Rightarrow> nat \<Rightarrow> string \<Rightarrow> string \<Rightarrow> exn + NFT" where
  "fetchNFTMetadata_try w index cName cSymbol =
     (case tokenOfOwnerByIndex w index of
        Inl e \<Rightarrow> Inl e
      | Inr tid \<Rightarrow>
          (case tokenURI w tid of
             Inl e \<Rightarrow> Inl e
           | Inr uri \<Rightarrow>
               (case fetch_metadata w (resolve uri) of
                  Inl e \<Rightarrow> Inl e
                | Inr None \<Rightarrow> Inl TypeError
                | Inr (Some md) \<Rightarrow> Inr (make_entry tid md cName cSymbol))))"

definition fetchNFTMetadata ::
  "world \<Rightarrow> nat \<Rightarrow> string \<Rightarrow> string \<Rightarrow> NFT option \<times> log_entry multiset" where
  "fetchNFTMetadata w index cName cSymbol =
     (case fetchNFTMetadata_try w index cName cSymbol of
        Inl e \<Rightarrow> (None, {#ErrorFetchingNFT index e#})
      | Inr nft \<Rightarrow> (Some nft, {#}))"

subsection \<open>The run: \<^verbatim>\<open>fetchNFTs\<close> (lines 85-139)\<close>

text \<open>Line 116: \<^verbatim>\<open>nftResults.filter(nft => nft !== null)\<close>.\<close>

fun not_null :: "'a option list \<Rightarrow> 'a list" where
  "not_null [] = []"
| "not_null (None # rs) = not_null rs"
| "not_null (Some x # rs) = x # not_null rs"

text \<open>Lines 121-128, the task of one surviving entry.\<close>

definition with_price :: "world \<Rightarrow> NFT \<Rightarrow> NFT \<times> log_entry multiset" where
  "with_price w nft =
     (case fetchOpenSeaPrice w (tokenId nft) of
        (priceData, logs) \<Rightarrow>
          (nft\<lparr>lowestPrice := map_option price priceData,
               currency := (case priceData of None \<Rightarrow> None | Some d \<Rightarrow> price_currency d)\<rparr>,
           logs))"

definition failed_message :: string where
  "failed_message =
     ''Failed to fetch NFTs. Please check your contract address and wallet address.''"

text \<open>
  The body of the \<^verbatim>\<open>try\<close> block, from the state left by \<^verbatim>\<open>setLoading(true)\<close> and
  \<^verbatim>\<open>setError(null)\<close>. The three prerequisite reads and \<^verbatim>\<open>balance.toNumber()\<close> are not
  guarded and throw to the \<^verbatim>\<open>catch\<close> of \<^verbatim>\<open>fetchNFTs\<close>; the per-item tasks have their own
  \<^verbatim>\<open>catch\<close> and always resolve, so both \<^verbatim>\<open>Promise.all\<close> resolve.
\<close>

definition fetchNFTs_try :: "world \<Rightarrow> state \<Rightarrow> exn + state" where
  "fetchNFTs_try w s =
     (case contract_name w of
        Inl e \<Rightarrow> Inl e
      | Inr cName \<Rightarrow>
          (case contract_symbol w of
             Inl e \<Rightarrow> Inl e
           | Inr cSymbol \<Rightarrow>
               (case balanceOf w of
                  Inl e \<Rightarrow> Inl e
                | Inr balance \<Rightarrow>
                    (case toNumber balance of
                       Inl e \<Rightarrow> Inl e
                     | Inr n \<Rightarrow>
                         (let nftResults = map (\<lambda>i. fetchNFTMetadata w i cName cSymbol) [0..<n];
                              valid = not_null (map fst nftResults);
                              nftsWithPrices = map (with_price w) valid
                          in Inr (s\<lparr>nfts := map fst nftsWithPrices,
                                    priceLoading := True,
                                    console := console s + sum_list (map snd nftResults)
                                                 + sum_list (map snd nftsWithPrices)\<rparr>))))))"

definition fetchNFTs :: "world \<Rightarrow> state \<Rightarrow> state" where
  "fetchNFTs w s =
     (let s0 = s\<lparr>loading := True, error := None\<rparr>;
          s1 = (case fetchNFTs_try w s0 of
                  Inr s' \<Rightarrow> s'
                | Inl e \<Rightarrow> s0\<lparr>error := Some failed_message,
                               console := console s0 + {#ErrorFetchingNFTs e#}\<rparr>)
      in s1\<lparr>loading := False, priceLoading := False\<rparr>)"

text \<open>
  The value of the constant \<^verbatim>\<open>validNFTs\<close> (lines 115-116) in a run with balance \<open>n\<close>: the
  entries that survive the metadata stage.
\<close>

definition validNFTs :: "world \<Rightarrow> string \<Rightarrow> string \<Rightarrow> nat \<Rightarrow> NFT list" where
  "validNFTs w cName cSymbol n =
     not_null (map fst (map (\<lambda>i. fetchNFTMetadata w i cName cSymbol) [0..<n]))"

text \<open>The state of a freshly mounted component (the \<^verbatim>\<open>useState\<close> defaults).\<close>

definition initial_state :: state where
  "initial_state =
     \<lparr>nfts = [], loading = True, error = None, priceLoading = False, console = {#}\<rparr>"

subsection \<open>The view: \<^verbatim>\<open>filteredAndSortedNFTs\<close> (lines 170-190)\<close>

datatype sort_key = SortByName | SortByTokenId | SortByCollection | SortByPrice

text \<open>\<^verbatim>\<open>!x\<close> for an optional number: \<^verbatim>\<open>undefined\<close> and \<^verbatim>\<open>0\<close> are falsy.\<close>

definition falsy :: "rat option \<Rightarrow> bool" where
  "falsy x = (x = None \<or> x = Some 0)"

text \<open>
  The comparator passed to \<^verbatim>\<open>sort\<close>; \<open>None\<close> is \<^verbatim>\<open>NaN\<close>. \<^verbatim>\<open>localeCompare\<close> depends on the
  host's collation and is a parameter.
\<close>

definition compareNFT ::
  "(string \<Rightarrow> string \<Rightarrow> int) \<Rightarrow> sort_key \<Rightarrow> NFT \<Rightarrow> NFT \<Rightarrow> rat option" where
  "compareNFT localeCompare sortBy a b =
     (case sortBy of
        SortByName \<Rightarrow> Some (of_int (localeCompare (name a) (name b)))
      | SortByCollection \<Rightarrow>
          Some (of_int (localeCompare (or_else (collectionName a) [])
                                      (or_else (collectionName b) [])))
      | SortByPrice \<Rightarrow>
          if falsy (lowestPrice a) \<and> falsy (lowestPrice b) then Some 0
          else if falsy (lowestPrice a) then Some 1
          else if falsy (lowestPrice b) then Some (- 1)
          else (case lowestPrice a of
                  None \<Rightarrow> None
                | Some x \<Rightarrow> (case lowestPrice b of None \<Rightarrow> None | Some y \<Rightarrow> Some (x - y)))
      | SortByTokenId \<Rightarrow>
          (case parseInt (tokenId a) of
             None \<Rightarrow> None
           | Some x \<Rightarrow>
               (case parseInt (tokenId b) of None \<Rightarrow> None | Some y \<Rightarrow> Some (of_int (x - y)))))"

text \<open>
  \<^verbatim>\<open>Array.prototype.sort\<close> is stable, and a comparator result \<^verbatim>\<open>NaN\<close> counts as \<open>0\<close>. For
  a consistent comparator the sorted, stable arrangement is unique, so any stable
  sort computes it; here it is an insertion sort.
\<close>

definition SortCompare :: "('a \<Rightarrow> 'a \<Rightarrow> rat option) \<Rightarrow> 'a \<Rightarrow> 'a \<Rightarrow> rat" where
  "SortCompare comparefn x y = (case comparefn x y of None \<Rightarrow> 0 | Some v \<Rightarrow> v)"

fun insert_sorted :: "('a \<Rightarrow> 'a \<Rightarrow> rat option) \<Rightarrow> 'a \<Rightarrow> 'a list \<Rightarrow> 'a list" where
  "insert_sorted comparefn x [] = [x]"
| "insert_sorted comparefn x (y # ys) =
     (if SortCompare comparefn x y \<le> 0 then x # y # ys
      else y # insert_sorted comparefn x ys)"

fun sorted_copy :: "('a \<Rightarrow> 'a \<Rightarrow> rat option) \<Rightarrow> 'a list \<Rightarrow> 'a list" where
  "sorted_copy comparefn [] = []"
| "sorted_copy comparefn (x # xs) = insert_sorted comparefn x (sorted_copy comparefn xs)"

text \<open>
  The key by which the price comparator orders: the entries with a falsy price share
  one key, greater than the key of every other entry (pairs are ordered
  lexicographically, \<open>False\<close> before \<open>True\<close>).
\<close>

definition price_key :: "NFT \<Rightarrow> bool \<times> rat" where
  "price_key nft =
     (case lowestPrice nft of
        None \<Rightarrow> (True, 0)
      | Some p \<Rightarrow> if p = 0 then (True, 0) else (False, p))"

text \<open>Lines 171-174, the predicate of \<^verbatim>\<open>filter\<close>.\<close>

definition matches :: "string \<Rightarrow> NFT \<Rightarrow> bool" where
  "matches flt nft =
     (includes_string (toLowerCase (name nft)) (toLowerCase flt)
      \<or> includes_string (toLowerCase (description nft)) (toLowerCase flt))"

text \<open>
  Arrays are objects: \<^verbatim>\<open>sort\<close> reorders its receiver in place and returns it, while the
  spread \<^verbatim>\<open>[...nfts]\<close> and \<^verbatim>\<open>filter\<close> allocate. The store is the list of all arrays, an
  array reference an index into it.
\<close>

type_synonym store = "NFT list list"

definition spread :: "store \<Rightarrow> nat \<Rightarrow> store \<times> nat" where
  "spread h a = (h @ [h ! a], length h)"

definition array_filter :: "(NFT \<Rightarrow> bool) \<Rightarrow> store \<Rightarrow> nat \<Rightarrow> store \<times> nat" where
  "array_filter p h a = (h @ [filter p (h ! a)], length h)"

definition array_sort :: "(NFT \<Rightarrow> NFT \<Rightarrow> rat option) \<Rightarrow> store \<Rightarrow> nat \<Rightarrow> store \<times> nat" where
  "array_sort comparefn h a = (h[a := sorted_copy comparefn (h ! a)], a)"

definition filteredAndSortedNFTs ::
  "(string \<Rightarrow> string \<Rightarrow> int) \<Rightarrow> string \<Rightarrow> sort_key \<Rightarrow> store \<Rightarrow> nat \<Rightarrow> store \<times> nat" where
  "filteredAndSortedNFTs localeCompare flt sortBy h nftsRef =
     (case spread h nftsRef of
        (h1, copy) \<Rightarrow>
          (case array_filter (matches flt) h1 copy of
             (h2, filtered) \<Rightarrow> array_sort (compareNFT localeCompare sortBy) h2 filtered))"

text \<open>The same view as a function of the entries alone.\<close>

definition view_of ::
  "(string \<Rightarrow> string \<Rightarrow> int) \<Rightarrow> string \<Rightarrow> sort_key \<Rightarrow> NFT list \<Rightarrow> NFT list" where
  "view_of localeCompare flt sortBy entries =
     sorted_copy (compareNFT localeCompare sortBy) (filter (matches flt) entries)"

subsection \<open>The failure records of the specification\<close>

text \<open>
  The specification (its sections 3, 4.2 and 4.3) asks a run to return, beside the
  entries, one failure record per owned index that yields no entry: with stage
  ownership when the enumeration read of the index fails, and with stage metadata and
  the token id when a later read of that token fails. The source builds no such
  records; these definitions follow the specification's words and serve to compare
  them with what a run leaves.
\<close>

datatype stage = Ownership | Metadata | Price

record enrichment_failure =
  failure_tokenId :: "nat option"
  failure_stage :: stage
  failure_cause :: exn

definition spec_failure :: "world \<Rightarrow> string \<Rightarrow> string \<Rightarrow> nat \<Rightarrow> enrichment_failure option" where
  "spec_failure w cName cSymbol index =
     (case tokenOfOwnerByIndex w index of
        Inl e \<Rightarrow>
          Some \<lparr>failure_tokenId = None, failure_stage = Ownership, failure_cause = e\<rparr>
      | Inr tid \<Rightarrow>
          (case fetchNFTMetadata_try w index cName cSymbol of
             Inl e \<Rightarrow>
               Some \<lparr>failure_tokenId = Some tid, failure_stage = Metadata, failure_cause = e\<rparr>
           | Inr nft \<Rightarrow> None))"

definition spec_failures :: "world \<Rightarrow> string \<Rightarrow> string \<Rightarrow> nat \<Rightarrow> enrichment_failure list" where
  "spec_failures w cName cSymbol n = not_null (map (spec_failure w cName cSymbol) [0..<n])"

subsection \<open>Concrete worlds\<close>

text \<open>
  A wallet of three tokens (ids 10, 11, 12); every token has three listings, of 500,
  200 and 800 base units of a token with two decimals.
\<close>

definition example_token :: payment_token where
  "example_token = \<lparr>decimals = Some 2, symbol = Some ''ETH''\<rparr>"

definition listing :: "string \<Rightarrow> payment_token \<Rightarrow> sell_order" where
  "listing amount token = \<lparr>current_price = Some amount, payment_token_contract = Some token\<rparr>"

definition listings :: "sell_order list \<Rightarrow> response" where
  "listings orders = \<lparr>ok = True, json = Inr (Some \<lparr>sell_orders = Some orders\<rparr>)\<rparr>"

definition example_metadata :: metadata where
  "example_metadata =
     \<lparr>metadata_name = Some ''Cat'', metadata_image = Some ''ipfs://img'',
      metadata_description = Some ''A cat'', metadata_attributes = None\<rparr>"

definition example_world :: world where
  "example_world =
     \<lparr>contract_name = Inr ''Cats'',
      contract_symbol = Inr ''CAT'',
      balanceOf = Inr 3,
      tokenOfOwnerByIndex = (\<lambda>i. Inr (10 + i)),
      tokenURI = (\<lambda>t. Inr (''ipfs://meta/'' @ toString t)),
      fetch_metadata = (\<lambda>url. Inr (Some example_metadata)),
      fetch_opensea = (\<lambda>t. Inr (listings [listing ''500'' example_token,
                                             listing ''200'' example_token,
                                             listing ''800'' example_token]))\<rparr>"

text \<open>The enumeration read of index 1 throws.\<close>

definition world_ownership_fails :: world where
  "world_ownership_fails =
     example_world\<lparr>tokenOfOwnerByIndex :=
       (\<lambda>i. if i = 1 then Inl (CallException ''revert'') else Inr (10 + i))\<rparr>"

text \<open>Index 1 enumerates token \<open>t\<close>, whose \<^verbatim>\<open>tokenURI\<close> read throws.\<close>

definition world_metadata_fails :: "nat \<Rightarrow> world" where
  "world_metadata_fails t =
     example_world\<lparr>tokenOfOwnerByIndex := (\<lambda>i. if i = 1 then Inr t else Inr (10 + i)),
                   tokenURI := (\<lambda>u. if u = t then Inl (CallException ''revert'')
                                     else Inr (''ipfs://meta/'' @ toString u))\<rparr>"

text \<open>The listings name no symbol for their payment token.\<close>

definition world_without_symbol :: world where
  "world_without_symbol =
     example_world\<lparr>fetch_opensea :=
       (\<lambda>t. Inr (listings [listing ''500'' \<lparr>decimals = Some 2, symbol = None\<rparr>]))\<rparr>"

text \<open>The listings name no decimals for their payment token.\<close>

definition world_without_decimals :: world where
  "world_without_decimals =
     example_world\<lparr>fetch_opensea :=
       (\<lambda>t. Inr (listings [listing ''500'' \<lparr>decimals = None, symbol = Some ''ETH''\<rparr>]))\<rparr>"

text \<open>
  A wallet of four tokens: 10 and 12 have no listing, 11 is listed at 500 and 13 at 200
  base units.
\<close>

definition world_mixed_prices :: world where
  "world_mixed_prices =
     example_world\<lparr>balanceOf := Inr 4,
       fetch_opensea :=
         (\<lambda>t. if t = ''11'' then Inr (listings [listing ''500'' example_token])
              else if t = ''13'' then Inr (listings [listing ''200'' example_token])
              else Inr (listings []))\<rparr>"

text \<open>The only listing of every token has the price 0.\<close>

definition world_zero_price :: world where
  "world_zero_price =
     example_world\<lparr>fetch_opensea := (\<lambda>t. Inr (listings [listing ''0'' example_token]))\<rparr>"

text \<open>The document of every token has an empty name.\<close>

definition world_empty_name :: world where
  "world_empty_name =
     example_world\<lparr>fetch_metadata :=
       (\<lambda>url. Inr (Some (example_metadata\<lparr>metadata_name := Some []\<rparr>)))\<rparr>"

text \<open>The entry of token \<open>tid\<close> in \<open>example_world\<close>.\<close>

definition example_entry :: "string \<Rightarrow> NFT" where
  "example_entry tid =
     \<lparr>tokenId = tid, name = ''Cat'', image_url = ''https://ipfs.io/ipfs/img'',
      description = ''A cat'', attributes = None, collectionName = Some ''Cats'',
      collectionSymbol = Some ''CAT'', lowestPrice = Some 5, currency = Some ''ETH''\<rparr>"

text \<open>An entry with a given price, for the view.\<close>

definition priced :: "string \<Rightarrow> rat option \<Rightarrow> NFT" where
  "priced tid p =
     \<lparr>tokenId = tid, name = ''#'' @ tid, image_url = [], description = [],
      attributes = None, collectionName = Some ''Cats'', collectionSymbol = Some ''CAT'',
      lowestPrice = p, currency = map_option (\<lambda>x. ''ETH'') p\<rparr>"

text \<open>A store with one array, the entries of the component.\<close>

definition example_entries :: "NFT list" where
  "example_entries = [priced ''1'' None, priced ''2'' (Some 5)]"

definition example_store :: store where
  "example_store = [example_entries]"

section \<open>Properties\<close>

subsection \<open>Text of numbers\<close>

lemma digit_cases: "d < 10 \<Longrightarrow> d \<in> {0, 1, 2, 3, 4, 5, 6, 7, 8, 9::nat}"
  by auto

lemma digitVal_digitChar: "d < 10 \<Longrightarrow> digitVal (digitChar d) = d"
  using digit_cases [of d] by (auto simp: digitVal_def digitChar_def)

lemma isDigit_digitChar: "d < 10 \<Longrightarrow> isDigit (digitChar d)"
  using digit_cases [of d] by (auto simp: isDigit_def digitChar_def)

lemma digitsVal_snoc: "digitsVal (ds @ [c]) = 10 * digitsVal ds + digitVal c"
  by (simp add: digitsVal_def)

text \<open>The printed token id reads back as the token id, so printing is injective.\<close>

lemma digitsVal_toString: "digitsVal (toString n) = n"
proof (induction n rule: toString.induct)
  case (1 n)
  show ?case
  proof (cases "n < 10")
    case True
    then show ?thesis
      by (subst toString.simps) (simp add: digitsVal_def digitVal_digitChar)
  next
    case False
    have m: "n mod 10 < 10" by simp
    have "digitsVal (toString n)
          = 10 * digitsVal (toString (n div 10)) + digitVal (digitChar (n mod 10))"
      using False by (subst toString.simps) (simp add: digitsVal_snoc)
    also have "\<dots> = 10 * (n div 10) + n mod 10"
      using "1.IH" [OF False] digitVal_digitChar [OF m] by simp
    finally show ?thesis by simp
  qed
qed

lemma toString_inj: "toString m = toString n \<Longrightarrow> m = n"
  by (metis digitsVal_toString)

lemma toString_digits: "c \<in> set (toString n) \<Longrightarrow> isDigit c"
proof (induction n rule: toString.induct)
  case (1 n)
  show ?case
  proof (cases "n < 10")
    case True
    with "1.prems" show ?thesis
      by (subst (asm) toString.simps) (simp add: isDigit_digitChar)
  next
    case False
    have m: "n mod 10 < 10" by simp
    from "1.prems" False have "c \<in> set (toString (n div 10)) \<or> c = digitChar (n mod 10)"
      by (subst (asm) toString.simps) auto
    then show ?thesis
      using "1.IH" [OF False] isDigit_digitChar [OF m] by auto
  qed
qed

lemma toString_nonempty: "toString n \<noteq> []"
  by (subst toString.simps) simp

lemma parseInt_toString: "parseInt (toString n) = Some (int n)"
proof -
  have d: "\<forall>c\<in>set (toString n). isDigit c"
    using toString_digits by blast
  have ne: "toString n \<noteq> []" by (rule toString_nonempty)
  obtain c cs where cs: "toString n = c # cs"
    using ne by (cases "toString n") auto
  have dc: "isDigit c" using d cs by simp
  have nsp: "\<not> isSpace c" using dc by (auto simp: isDigit_def isSpace_def)
  have nsg: "c \<noteq> CHR ''-''" "c \<noteq> CHR ''+''" using dc by (auto simp: isDigit_def)
  have a: "dropWhile isSpace (toString n) = toString n"
    using cs nsp by simp
  have b: "parseSign (toString n) = (1, toString n)"
    using cs nsg by (simp add: parseSign_def)
  have c: "takeWhile isDigit (toString n) = toString n"
    using d by (simp add: takeWhile_eq_all_conv)
  show ?thesis
    using ne by (simp add: parseInt_def a b c digitsVal_toString)
qed

lemma toString_examples:
  "toString 7 = ''7''" "toString 10 = ''10''" "toString 11 = ''11''" "toString 12 = ''12''"
  "toString 99 = ''99''"
  by (simp_all add: toString.simps digitChar_def)

subsection \<open>The content-address resolver\<close>

lemma occurs_iff_occurs_at: "occurs pat s \<longleftrightarrow> (\<exists>k. occurs_at pat s k)"
proof (induction s)
  case Nil
  then show ?case by (auto simp: occurs_at_def)
next
  case (Cons c cs)
  have "(\<exists>k. occurs_at pat (c # cs) k)
        \<longleftrightarrow> occurs_at pat (c # cs) 0 \<or> (\<exists>k. occurs_at pat (c # cs) (Suc k))"
    by (metis not0_implies_Suc)
  also have "\<dots> \<longleftrightarrow> prefix pat (c # cs) \<or> (\<exists>k. occurs_at pat cs k)"
    by (simp add: occurs_at_def)
  finally show ?case
    using Cons.IH by simp
qed

lemma replace_without_occurrence:
  "\<not> occurs pat s \<Longrightarrow> replace s pat rep = s"
  by (induction s) auto

lemma replace_first_occurrence:
  assumes "pat \<noteq> []"
    and "\<forall>k<length u. \<not> occurs_at pat (u @ pat @ v) k"
  shows "replace (u @ pat @ v) pat rep = u @ rep @ v"
  using assms(2)
proof (induction u)
  case Nil
  obtain c cs where pcs: "pat @ v = c # cs"
    using assms(1) by (cases "pat @ v") auto
  have "prefix pat (c # cs)"
    using pcs by (metis prefixI)
  then have "replace (c # cs) pat rep = rep @ drop (length pat) (c # cs)"
    by simp
  then show ?case
    using pcs by (metis append_Nil append_eq_conv_conj)
next
  case (Cons a u)
  have "\<not> occurs_at pat ((a # u) @ pat @ v) 0"
    using Cons.prems by auto
  then have np: "\<not> prefix pat (a # (u @ pat @ v))"
    by (simp add: occurs_at_def)
  have "\<forall>k<length u. \<not> occurs_at pat (u @ pat @ v) k"
  proof (intro allI impI)
    fix k assume "k < length u"
    then have "\<not> occurs_at pat ((a # u) @ pat @ v) (Suc k)"
      using Cons.prems by auto
    then show "\<not> occurs_at pat (u @ pat @ v) k"
      by (simp add: occurs_at_def)
  qed
  then have "replace (u @ pat @ v) pat rep = u @ rep @ v"
    by (rule Cons.IH)
  then show ?case
    using np by simp
qed

text \<open>
  C5 (as the source has it). The resolver never fails (it is a total function) and
  rewrites the first occurrence of \<^verbatim>\<open>ipfs://\<close>, wherever it starts, to the gateway
  \<^verbatim>\<open>https://ipfs.io/ipfs/\<close>, keeping the text before and after it: a reference
  \<^verbatim>\<open>ipfs://<cid>\<close> becomes \<^verbatim>\<open>https://ipfs.io/ipfs/<cid>\<close>; a string in which \<^verbatim>\<open>ipfs://\<close>
  does not occur, the empty string among them, is returned unchanged.
\<close>

theorem resolve_rewrites_first_occurrence:
  "resolve (ipfs_scheme @ cid) = ipfs_gateway @ cid
   \<and> (\<not> occurs ipfs_scheme s \<longrightarrow> resolve s = s)
   \<and> resolve [] = []
   \<and> ((\<forall>k<length u. \<not> occurs_at ipfs_scheme (u @ ipfs_scheme @ v) k)
        \<longrightarrow> resolve (u @ ipfs_scheme @ v) = u @ ipfs_gateway @ v)"
proof -
  have ne: "ipfs_scheme \<noteq> []"
    by (simp add: ipfs_scheme_def)
  have a: "resolve (ipfs_scheme @ cid) = ipfs_gateway @ cid"
    unfolding resolve_def using replace_first_occurrence [OF ne, of "[]" cid ipfs_gateway] by simp
  have b: "\<not> occurs ipfs_scheme s \<longrightarrow> resolve s = s"
    unfolding resolve_def by (simp add: replace_without_occurrence)
  have c: "resolve [] = []"
    unfolding resolve_def using ne by simp
  have d: "(\<forall>k<length u. \<not> occurs_at ipfs_scheme (u @ ipfs_scheme @ v) k)
        \<longrightarrow> resolve (u @ ipfs_scheme @ v) = u @ ipfs_gateway @ v"
    unfolding resolve_def using replace_first_occurrence [OF ne] by blast
  from a b c d show ?thesis by blast
qed

theorem resolve_rewrites_first_occurrence_witness:
  "\<not> occurs ipfs_scheme ''https://a.io/1.json''
   \<and> resolve ''https://a.io/1.json'' = ''https://a.io/1.json''
   \<and> \<not> occurs_at ipfs_scheme (''x '' @ ipfs_scheme @ ''abc'') 0
   \<and> \<not> occurs_at ipfs_scheme (''x '' @ ipfs_scheme @ ''abc'') 1
   \<and> resolve ''x ipfs://abc'' = ''x https://ipfs.io/ipfs/abc''
   \<and> resolve ''ipfs://abc123'' = ''https://ipfs.io/ipfs/abc123''"
proof -
  have h1: "\<not> occurs ipfs_scheme ''https://a.io/1.json''"
    by (simp add: ipfs_scheme_def)
  have h2: "\<not> occurs_at ipfs_scheme (''x '' @ ipfs_scheme @ ''abc'') 0"
    and h3: "\<not> occurs_at ipfs_scheme (''x '' @ ipfs_scheme @ ''abc'') 1"
    by (simp_all add: ipfs_scheme_def occurs_at_def)
  have h4: "\<forall>k<length ''x ''. \<not> occurs_at ipfs_scheme (''x '' @ ipfs_scheme @ ''abc'') k"
    using h2 h3 by (simp add: less_Suc_eq)
  show ?thesis
    using h1 h2 h3 h4
      resolve_rewrites_first_occurrence [of "''abc123''" "''https://a.io/1.json''" "''x ''" "''abc''"]
    by (simp add: ipfs_scheme_def ipfs_gateway_def)
qed

text \<open>
  C5 as stated fails: an input that does not start with the scheme, but contains it,
  is rewritten.
\<close>

theorem resolve_prefix_only_counterexample:
  "\<not> prefix ipfs_scheme ''x ipfs://abc'' \<and> resolve ''x ipfs://abc'' \<noteq> ''x ipfs://abc''"
  by (simp add: ipfs_scheme_def ipfs_gateway_def resolve_def)

subsection \<open>Helper facts about the price reader and the run\<close>

text \<open>
  When the price reader returns a price: the request succeeds with an OK status and a
  JSON body, and the first listing has a non-empty price text that parses to a non-zero
  amount, a payment token and its decimals. The price is that of the first listing; the
  symbol is passed on as it is, present or not.
\<close>

lemma fetchOpenSeaPrice_Some_iff:
  "fst (fetchOpenSeaPrice w tid) = Some pd \<longleftrightarrow>
     (\<exists>resp data order rest cp token amount d.
        fetch_opensea w tid = Inr resp \<and> ok resp \<and> json resp = Inr (Some data)
        \<and> sell_orders data = Some (order # rest)
        \<and> current_price order = Some cp \<and> cp \<noteq> []
        \<and> payment_token_contract order = Some token
        \<and> parseFloat cp = Some amount \<and> decimals token = Some d \<and> amount \<noteq> 0
        \<and> pd = \<lparr>price = amount / 10 ^ d, price_currency = symbol token\<rparr>)"
  unfolding fetchOpenSeaPrice_def fetchOpenSeaPrice_try_def lowest_price_def first_symbol_def
    first_order_def
  by (auto split: sum.splits option.splits list.splits if_splits)

lemma fetchOpenSeaPrice_logs:
  "snd (fetchOpenSeaPrice w tid) = {#} \<or> (\<exists>e. snd (fetchOpenSeaPrice w tid) = {#ErrorFetchingOpenSeaPrice e#})"
  unfolding fetchOpenSeaPrice_def by (auto split: sum.splits)

lemma with_price_fields:
  "fst (with_price w nft) =
     nft\<lparr>lowestPrice := map_option price (fst (fetchOpenSeaPrice w (tokenId nft))),
         currency := (case fst (fetchOpenSeaPrice w (tokenId nft)) of
                        None \<Rightarrow> None | Some d \<Rightarrow> price_currency d)\<rparr>"
  unfolding with_price_def by (simp split: prod.splits)

lemma with_price_logs: "snd (with_price w nft) = snd (fetchOpenSeaPrice w (tokenId nft))"
  unfolding with_price_def by (simp split: prod.splits)

lemma fetchNFTMetadata_fst:
  "fst (fetchNFTMetadata w i cn cs) =
     (case fetchNFTMetadata_try w i cn cs of Inl e \<Rightarrow> None | Inr nft \<Rightarrow> Some nft)"
  unfolding fetchNFTMetadata_def by (simp split: sum.splits)

lemma fetchNFTMetadata_snd:
  "snd (fetchNFTMetadata w i cn cs) =
     (case fetchNFTMetadata_try w i cn cs of Inl e \<Rightarrow> {#ErrorFetchingNFT i e#} | Inr nft \<Rightarrow> {#})"
  unfolding fetchNFTMetadata_def by (simp split: sum.splits)

lemma validNFTs_eq:
  "validNFTs w cn cs n =
     map (\<lambda>i. projr (fetchNFTMetadata_try w i cn cs))
         (filter (\<lambda>i. \<not> isl (fetchNFTMetadata_try w i cn cs)) [0..<n])"
proof -
  have "not_null (map (\<lambda>i. fst (fetchNFTMetadata w i cn cs)) xs) =
     map (\<lambda>i. projr (fetchNFTMetadata_try w i cn cs))
         (filter (\<lambda>i. \<not> isl (fetchNFTMetadata_try w i cn cs)) xs)" for xs
    by (induction xs) (auto simp: fetchNFTMetadata_fst split: sum.splits)
  then show ?thesis
    by (simp add: validNFTs_def comp_def)
qed

lemma fetchNFTs_try_Inr:
  assumes "contract_name w = Inr cn" "contract_symbol w = Inr cs" "balanceOf w = Inr b"
    "b < 2 ^ 53"
  shows "fetchNFTs_try w s =
     Inr (s\<lparr>nfts := map (\<lambda>e. fst (with_price w e)) (validNFTs w cn cs b),
            priceLoading := True,
            console := console s
              + sum_list (map (\<lambda>i. snd (fetchNFTMetadata w i cn cs)) [0..<b])
              + sum_list (map (\<lambda>e. snd (with_price w e)) (validNFTs w cn cs b))\<rparr>)"
  using assms by (simp add: fetchNFTs_try_def validNFTs_def toNumber_def Let_def comp_def)

lemma fetchNFTs_try_Inl:
  "fetchNFTs_try w s = Inl e \<longleftrightarrow>
     contract_name w = Inl e
     \<or> (\<not> isl (contract_name w) \<and> contract_symbol w = Inl e)
     \<or> (\<not> isl (contract_name w) \<and> \<not> isl (contract_symbol w) \<and> balanceOf w = Inl e)
     \<or> (\<not> isl (contract_name w) \<and> \<not> isl (contract_symbol w)
         \<and> (\<exists>b. balanceOf w = Inr b \<and> 2 ^ 53 \<le> b \<and> e = NumericFault))"
  unfolding fetchNFTs_try_def toNumber_def
  by (auto simp: Let_def split: sum.splits if_splits)

lemma fetchNFTs_ok:
  assumes "contract_name w = Inr cn" "contract_symbol w = Inr cs" "balanceOf w = Inr b"
    "b < 2 ^ 53"
  shows "fetchNFTs w s =
     s\<lparr>nfts := map (\<lambda>e. fst (with_price w e)) (validNFTs w cn cs b),
       loading := False, error := None, priceLoading := False,
       console := console s
              + sum_list (map (\<lambda>i. snd (fetchNFTMetadata w i cn cs)) [0..<b])
              + sum_list (map (\<lambda>e. snd (with_price w e)) (validNFTs w cn cs b))\<rparr>"
  unfolding fetchNFTs_def by (simp add: fetchNFTs_try_Inr [OF assms] Let_def)

lemma fetchNFTs_failed:
  assumes "fetchNFTs_try w (s\<lparr>loading := True, error := None\<rparr>) = Inl e"
  shows "fetchNFTs w s =
     s\<lparr>loading := False, error := Some failed_message, priceLoading := False,
       console := console s + {#ErrorFetchingNFTs e#}\<rparr>"
  unfolding fetchNFTs_def using assms by (simp add: Let_def)

lemma count_metadata_logs:
  "count (sum_list (map (\<lambda>i. snd (fetchNFTMetadata w i cn cs)) [0..<b])) (ErrorFetchingNFT i e)
   = (if i < b \<and> fetchNFTMetadata_try w i cn cs = Inl e then 1 else 0)"
  by (induction b) (auto simp: fetchNFTMetadata_snd less_Suc_eq split: sum.splits)

lemma count_price_logs:
  "count (sum_list (map (\<lambda>e. snd (with_price w e)) es)) (ErrorFetchingNFT i e) = 0"
proof (induction es)
  case Nil
  then show ?case by simp
next
  case (Cons a es)
  have "count (snd (with_price w a)) (ErrorFetchingNFT i e) = 0"
    using fetchOpenSeaPrice_logs [of w "tokenId a"] by (auto simp: with_price_logs)
  then show ?case using Cons.IH by simp
qed

text \<open>Evaluation of a run in a concrete world.\<close>

lemmas run_eval =
  fetchNFTs_def fetchNFTs_try_def validNFTs_def fetchNFTMetadata_def fetchNFTMetadata_try_def
  fetchOpenSeaPrice_def fetchOpenSeaPrice_try_def lowest_price_def first_order_def
  first_symbol_def with_price_def make_entry_def or_else_def toNumber_def initial_state_def
  parseFloat_def parseSign_def parseExponent_def isDigit_def isSpace_def digitsVal_def
  digitVal_def resolve_def ipfs_scheme_def ipfs_gateway_def upt_rec toString_examples
  example_world_def example_token_def listing_def listings_def example_metadata_def

subsection \<open>The price reader\<close>

text \<open>
  C1 (the source fails it). The claim asks for the minimum over all listings; the source
  announces it (\<^verbatim>\<open>// Get the lowest price from all listings\<close>) and reads
  \<^verbatim>\<open>sell_orders[0]\<close> only. For the listings 500, 200 and 800 with two decimals it
  returns 5, not the minimum 2.
\<close>

theorem fetchOpenSeaPrice_reads_first_listing:
  "fetch_opensea example_world ''10'' =
     Inr (listings [listing ''500'' example_token, listing ''200'' example_token,
                    listing ''800'' example_token])
   \<and> map parseFloat [''500'', ''200'', ''800''] = [Some 500, Some 200, Some 800]
   \<and> fetchOpenSeaPrice example_world ''10''
       = (Some \<lparr>price = 5, price_currency = Some ''ETH''\<rparr>, {#})"
  by (simp add: run_eval)

subsection \<open>The metadata stage\<close>

lemma fetchNFTMetadata_try_Inr:
  assumes "tokenOfOwnerByIndex w i = Inr tid" "tokenURI w tid = Inr uri"
    "fetch_metadata w (resolve uri) = Inr (Some md)"
  shows "fetchNFTMetadata_try w i cn cs = Inr (make_entry tid md cn cs)"
  using assms by (simp add: fetchNFTMetadata_try_def)

lemma fetchNFTMetadata_try_Inr_iff:
  "fetchNFTMetadata_try w i cn cs = Inr nft \<longleftrightarrow>
     (\<exists>tid uri md. tokenOfOwnerByIndex w i = Inr tid \<and> tokenURI w tid = Inr uri
        \<and> fetch_metadata w (resolve uri) = Inr (Some md) \<and> nft = make_entry tid md cn cs)"
  unfolding fetchNFTMetadata_try_def by (auto split: sum.splits option.splits)

text \<open>
  C8 (as the source has it). For a fetched document, the entry's name is the document's
  name when that is present and not empty, and \<^verbatim>\<open>#<tokenId>\<close> otherwise; its
  description is the document's, or the empty string when that is absent; its
  attributes are the document's, present or absent.
\<close>

theorem entry_fields_from_document:
  assumes "tokenOfOwnerByIndex w i = Inr tid" "tokenURI w tid = Inr uri"
    "fetch_metadata w (resolve uri) = Inr (Some md)"
  shows "\<exists>nft. fetchNFTMetadata w i cn cs = (Some nft, {#})
     \<and> name nft = (case metadata_name md of
                     None \<Rightarrow> ''#'' @ toString tid
                   | Some n \<Rightarrow> if n = [] then ''#'' @ toString tid else n)
     \<and> description nft = (case metadata_description md of None \<Rightarrow> [] | Some d \<Rightarrow> d)
     \<and> attributes nft = metadata_attributes md"
proof -
  have "fetchNFTMetadata w i cn cs = (Some (make_entry tid md cn cs), {#})"
    by (simp add: fetchNFTMetadata_def fetchNFTMetadata_try_Inr [OF assms])
  moreover have "name (make_entry tid md cn cs) =
      (case metadata_name md of
         None \<Rightarrow> ''#'' @ toString tid
       | Some n \<Rightarrow> if n = [] then ''#'' @ toString tid else n)"
    by (simp add: make_entry_def or_else_def split: option.splits)
  moreover have "description (make_entry tid md cn cs) =
      (case metadata_description md of None \<Rightarrow> [] | Some d \<Rightarrow> d)"
    by (simp add: make_entry_def or_else_def split: option.splits)
  moreover have "attributes (make_entry tid md cn cs) = metadata_attributes md"
    by (simp add: make_entry_def)
  ultimately show ?thesis by blast
qed

theorem entry_fields_from_document_witness:
  "tokenOfOwnerByIndex example_world 0 = Inr 10
   \<and> tokenURI example_world 10 = Inr ''ipfs://meta/10''
   \<and> fetch_metadata example_world (resolve ''ipfs://meta/10'') = Inr (Some example_metadata)
   \<and> (\<exists>nft. fetchNFTMetadata example_world 0 ''Cats'' ''CAT'' = (Some nft, {#})
         \<and> name nft = ''Cat'' \<and> description nft = ''A cat'' \<and> attributes nft = None)"
proof -
  have h1: "tokenOfOwnerByIndex example_world 0 = Inr 10"
    and h2: "tokenURI example_world 10 = Inr ''ipfs://meta/10''"
    and h3: "fetch_metadata example_world (resolve ''ipfs://meta/10'') = Inr (Some example_metadata)"
    by (simp_all add: example_world_def toString_examples)
  show ?thesis
    using h1 h2 h3 entry_fields_from_document [OF h1 h2 h3, of "''Cats''" "''CAT''"]
    by (simp add: example_metadata_def)
qed

text \<open>
  C8 as stated fails: a document whose name is present and empty gets the fallback
  name, not its own.
\<close>

theorem empty_name_counterexample:
  "fetch_metadata world_empty_name (resolve ''ipfs://meta/10'')
     = Inr (Some (example_metadata\<lparr>metadata_name := Some []\<rparr>))
   \<and> map_option name (fst (fetchNFTMetadata world_empty_name 0 ''Cats'' ''CAT'')) = Some ''#10''"
  by (simp add: run_eval world_empty_name_def)

subsection \<open>The run\<close>

text \<open>
  C6. When a prerequisite read (name, symbol or balance) throws, the run ends with the
  one run-level error message, writes no entry (the entries are those the state had
  before the run) and logs one line. When the prerequisites succeed the run ends without
  an error, whatever the per-item reads do; and an exception leaves the \<^verbatim>\<open>try\<close> block of
  \<^verbatim>\<open>fetchNFTs\<close> only when it is the exception of a prerequisite read or of
  \<^verbatim>\<open>balance.toNumber()\<close>, never that of a per-item read.
\<close>

theorem prerequisite_failure_aborts_run:
  "(isl (contract_name w) \<or> isl (contract_symbol w) \<or> isl (balanceOf w)
      \<longrightarrow> error (fetchNFTs w s) = Some failed_message
          \<and> nfts (fetchNFTs w s) = nfts s
          \<and> (\<exists>e. console (fetchNFTs w s) = console s + {#ErrorFetchingNFTs e#}))
   \<and> (contract_name w = Inr cn \<and> contract_symbol w = Inr cs \<and> balanceOf w = Inr b
        \<and> b < 2 ^ 53
      \<longrightarrow> error (fetchNFTs w s) = None)
   \<and> (fetchNFTs_try w s = Inl e
      \<longrightarrow> contract_name w = Inl e \<or> contract_symbol w = Inl e \<or> balanceOf w = Inl e
          \<or> (\<exists>b. balanceOf w = Inr b \<and> toNumber b = Inl e))"
proof (intro conjI impI)
  assume pre: "isl (contract_name w) \<or> isl (contract_symbol w) \<or> isl (balanceOf w)"
  then have "\<exists>e. fetchNFTs_try w (s\<lparr>loading := True, error := None\<rparr>) = Inl e"
    by (cases "contract_name w"; cases "contract_symbol w"; cases "balanceOf w")
      (auto simp: fetchNFTs_try_Inl)
  then obtain e where "fetchNFTs_try w (s\<lparr>loading := True, error := None\<rparr>) = Inl e"
    by blast
  then have r: "fetchNFTs w s =
     s\<lparr>loading := False, error := Some failed_message, priceLoading := False,
       console := console s + {#ErrorFetchingNFTs e#}\<rparr>"
    by (rule fetchNFTs_failed)
  show "error (fetchNFTs w s) = Some failed_message" by (simp add: r)
  show "nfts (fetchNFTs w s) = nfts s" by (simp add: r)
  show "\<exists>e. console (fetchNFTs w s) = console s + {#ErrorFetchingNFTs e#}"
    by (rule exI [of _ e]) (simp add: r)
next
  assume "contract_name w = Inr cn \<and> contract_symbol w = Inr cs \<and> balanceOf w = Inr b
        \<and> b < 2 ^ 53"
  then show "error (fetchNFTs w s) = None"
    by (simp add: fetchNFTs_ok)
next
  assume "fetchNFTs_try w s = Inl e"
  then show "contract_name w = Inl e \<or> contract_symbol w = Inl e \<or> balanceOf w = Inl e
          \<or> (\<exists>b. balanceOf w = Inr b \<and> toNumber b = Inl e)"
  proof (unfold fetchNFTs_try_Inl, elim disjE conjE exE)
    fix b assume "balanceOf w = Inr b" "2 ^ 53 \<le> b" "e = NumericFault"
    then have "balanceOf w = Inr b \<and> toNumber b = Inl e"
      by (simp add: toNumber_def)
    then show ?thesis by blast
  qed simp_all
qed

theorem prerequisite_failure_aborts_run_witness:
  "isl (balanceOf (example_world\<lparr>balanceOf := Inl (CallException ''revert'')\<rparr>))
   \<and> error (fetchNFTs (example_world\<lparr>balanceOf := Inl (CallException ''revert'')\<rparr>) initial_state)
       = Some failed_message
   \<and> nfts (fetchNFTs (example_world\<lparr>balanceOf := Inl (CallException ''revert'')\<rparr>) initial_state) = []
   \<and> fetchNFTs_try (example_world\<lparr>balanceOf := Inl (CallException ''revert'')\<rparr>) initial_state
       = Inl (CallException ''revert'')
   \<and> error (fetchNFTs example_world initial_state) = None"
proof -
  let ?w = "example_world\<lparr>balanceOf := Inl (CallException ''revert'')\<rparr>"
  have h1: "isl (balanceOf ?w)" by simp
  have h2: "fetchNFTs_try ?w initial_state = Inl (CallException ''revert'')"
    by (simp add: fetchNFTs_try_def example_world_def)
  have h3: "contract_name example_world = Inr ''Cats'' \<and> contract_symbol example_world = Inr ''CAT''
     \<and> balanceOf example_world = Inr 3 \<and> (3::nat) < 2 ^ 53"
    by (simp add: example_world_def)
  show ?thesis
    using h1 h2 h3
      prerequisite_failure_aborts_run [of ?w initial_state "''Cats''" "''CAT''" 3 "CallException ''revert''"]
      prerequisite_failure_aborts_run [of example_world initial_state "''Cats''" "''CAT''" 3 TypeError]
    by (simp add: initial_state_def)
qed

lemma validNFTs_price_absent:
  assumes "e \<in> set (validNFTs w cn cs n)"
  shows "lowestPrice e = None \<and> currency e = None"
proof -
  obtain i where i: "\<not> isl (fetchNFTMetadata_try w i cn cs)"
      "e = projr (fetchNFTMetadata_try w i cn cs)"
    using assms unfolding validNFTs_eq by auto
  then have "fetchNFTMetadata_try w i cn cs = Inr e"
    by (cases "fetchNFTMetadata_try w i cn cs") auto
  then obtain tid md where "e = make_entry tid md cn cs"
    unfolding fetchNFTMetadata_try_Inr_iff by blast
  then show ?thesis
    by (simp add: make_entry_def)
qed

lemma with_price_other_fields:
  "(fst (with_price w nft))\<lparr>lowestPrice := lowestPrice nft, currency := currency nft\<rparr> = nft"
  by (simp add: with_price_fields)

lemma price_failure_kinds:
  "fetch_opensea w t = Inl e \<Longrightarrow> fst (fetchOpenSeaPrice w t) = None"
  "fetch_opensea w t = Inr resp \<Longrightarrow> \<not> ok resp \<Longrightarrow> fst (fetchOpenSeaPrice w t) = None"
  "fetch_opensea w t = Inr resp \<Longrightarrow> json resp = Inl e \<Longrightarrow> fst (fetchOpenSeaPrice w t) = None"
  "fetch_opensea w t = Inr resp \<Longrightarrow> json resp = Inr None \<Longrightarrow> fst (fetchOpenSeaPrice w t) = None"
  "fetch_opensea w t = Inr resp \<Longrightarrow> json resp = Inr (Some data) \<Longrightarrow> sell_orders data = None
     \<Longrightarrow> fst (fetchOpenSeaPrice w t) = None"
  "fetch_opensea w t = Inr resp \<Longrightarrow> json resp = Inr (Some data) \<Longrightarrow> sell_orders data = Some []
     \<Longrightarrow> fst (fetchOpenSeaPrice w t) = None"
  "fetch_opensea w t = Inr resp \<Longrightarrow> json resp = Inr (Some data)
     \<Longrightarrow> sell_orders data = Some (order # rest)
     \<Longrightarrow> current_price order = None \<or> current_price order = Some []
         \<or> payment_token_contract order = None
         \<or> (\<exists>token. payment_token_contract order = Some token \<and> decimals token = None)
     \<Longrightarrow> fst (fetchOpenSeaPrice w t) = None"
  unfolding fetchOpenSeaPrice_def fetchOpenSeaPrice_try_def lowest_price_def first_order_def
    first_symbol_def
  by (auto split: sum.splits option.splits list.splits)

text \<open>
  The price stage neither drops nor reorders an entry: the result has one entry per
  entry that survived the metadata stage, in the same order, equal to it in every field
  but price and currency; and an entry for which the price reader returns \<^verbatim>\<open>null\<close> is
  returned unchanged, with price and currency absent.
\<close>

lemma price_stage_keeps_entries:
  assumes "contract_name w = Inr cn" "contract_symbol w = Inr cs" "balanceOf w = Inr b"
    "b < 2 ^ 53"
  shows "length (nfts (fetchNFTs w s)) = length (validNFTs w cn cs b)
   \<and> (\<forall>k<length (validNFTs w cn cs b).
         (nfts (fetchNFTs w s) ! k)\<lparr>lowestPrice := None, currency := None\<rparr>
           = validNFTs w cn cs b ! k
         \<and> (fst (fetchOpenSeaPrice w (tokenId (validNFTs w cn cs b ! k))) = None
              \<longrightarrow> nfts (fetchNFTs w s) ! k = validNFTs w cn cs b ! k
                  \<and> lowestPrice (nfts (fetchNFTs w s) ! k) = None
                  \<and> currency (nfts (fetchNFTs w s) ! k) = None))"
proof -
  let ?valid = "validNFTs w cn cs b"
  have r: "nfts (fetchNFTs w s) = map (\<lambda>e. fst (with_price w e)) ?valid"
    by (simp add: fetchNFTs_ok [OF assms])
  have len: "length (nfts (fetchNFTs w s)) = length ?valid"
    by (simp add: r)
  have each: "(nfts (fetchNFTs w s) ! k)\<lparr>lowestPrice := None, currency := None\<rparr> = ?valid ! k
         \<and> (fst (fetchOpenSeaPrice w (tokenId (?valid ! k))) = None
              \<longrightarrow> nfts (fetchNFTs w s) ! k = ?valid ! k
                  \<and> lowestPrice (nfts (fetchNFTs w s) ! k) = None
                  \<and> currency (nfts (fetchNFTs w s) ! k) = None)"
    if k: "k < length ?valid" for k
  proof -
    have abs: "lowestPrice (?valid ! k) = None \<and> currency (?valid ! k) = None"
      using validNFTs_price_absent [where e = "?valid ! k" and w = w and cn = cn and cs = cs and n = b] k by simp
    have nk: "nfts (fetchNFTs w s) ! k = fst (with_price w (?valid ! k))"
      using k by (simp add: r)
    have a: "(nfts (fetchNFTs w s) ! k)\<lparr>lowestPrice := None, currency := None\<rparr> = ?valid ! k"
      using with_price_other_fields [where w = w and nft = "?valid ! k"] abs by (simp add: nk)
    have b: "nfts (fetchNFTs w s) ! k = ?valid ! k
                  \<and> lowestPrice (nfts (fetchNFTs w s) ! k) = None
                  \<and> currency (nfts (fetchNFTs w s) ! k) = None"
      if "fst (fetchOpenSeaPrice w (tokenId (?valid ! k))) = None"
      using that abs by (simp add: nk with_price_fields)
    from a b show ?thesis by blast
  qed
  from len each show ?thesis by blast
qed

text \<open>Each kind of failed price resolution leaves the entry without price and currency.\<close>

lemma price_failure_clears_price:
  assumes "fetch_opensea w (tokenId nft) = Inl e
     \<or> (\<exists>resp. fetch_opensea w (tokenId nft) = Inr resp
          \<and> (\<not> ok resp \<or> isl (json resp) \<or> json resp = Inr None
              \<or> (\<exists>data. json resp = Inr (Some data)
                   \<and> (sell_orders data = None \<or> sell_orders data = Some []
                       \<or> (\<exists>order rest. sell_orders data = Some (order # rest)
                            \<and> (current_price order = None \<or> current_price order = Some []
                                \<or> payment_token_contract order = None
                                \<or> (\<exists>token. payment_token_contract order = Some token
                                     \<and> decimals token = None)))))))"
  shows "fst (with_price w nft) = nft\<lparr>lowestPrice := None, currency := None\<rparr>"
proof -
  have "fst (fetchOpenSeaPrice w (tokenId nft)) = None"
    using assms price_failure_kinds [of w "tokenId nft"] by (auto simp: isl_def)
  then show ?thesis
    by (simp add: with_price_fields)
qed

text \<open>
  C3 (the source fails it). A listing whose payment token has no symbol lacks a
  required field, and the claim asks for an absent price. The source returns
  \<^verbatim>\<open>{price: 5, currency: undefined}\<close>, against the return type it declares
  (\<^verbatim>\<open>{ price: number; currency: string } | null\<close>): the entry keeps the price 5 and has
  no currency. The sibling case of missing decimals returns \<^verbatim>\<open>null\<close>, as the claim says.
\<close>

theorem missing_symbol_keeps_price:
  "fetch_opensea world_without_symbol ''10''
     = Inr (listings [listing ''500'' \<lparr>decimals = Some 2, symbol = None\<rparr>])
   \<and> fetchOpenSeaPrice world_without_symbol ''10''
       = (Some \<lparr>price = 5, price_currency = None\<rparr>, {#})
   \<and> map lowestPrice (nfts (fetchNFTs world_without_symbol initial_state))
       = [Some 5, Some 5, Some 5]
   \<and> map currency (nfts (fetchNFTs world_without_symbol initial_state)) = [None, None, None]
   \<and> fetchOpenSeaPrice world_without_decimals ''10'' = (None, {#})"
  by (simp add: run_eval world_without_symbol_def world_without_decimals_def)

lemma upt_3: "[0..<3] = [0, 1, 2]"
  by (simp add: upt_rec)

lemma fetchNFTMetadata_try_enumeration_fails:
  "tokenOfOwnerByIndex w i = Inl e \<Longrightarrow> fetchNFTMetadata_try w i cn cs = Inl e"
  by (simp add: fetchNFTMetadata_try_def)

lemma run_entries:
  assumes "contract_name w = Inr cn" "contract_symbol w = Inr cs" "balanceOf w = Inr b"
    "b < 2 ^ 53"
  shows "nfts (fetchNFTs w s) =
     map (\<lambda>i. fst (with_price w (projr (fetchNFTMetadata_try w i cn cs))))
         (filter (\<lambda>i. \<not> isl (fetchNFTMetadata_try w i cn cs)) [0..<b])"
  by (simp add: fetchNFTs_ok [OF assms] validNFTs_eq comp_def)

lemma run_console_count:
  assumes "contract_name w = Inr cn" "contract_symbol w = Inr cs" "balanceOf w = Inr b"
    "b < 2 ^ 53"
  shows "count (console (fetchNFTs w s)) (ErrorFetchingNFT i e) =
     count (console s) (ErrorFetchingNFT i e)
       + (if i < b \<and> fetchNFTMetadata_try w i cn cs = Inl e then 1 else 0)"
  by (simp add: fetchNFTs_ok [OF assms] count_metadata_logs count_price_logs)

lemma entry_tokenId:
  assumes "\<not> isl (fetchNFTMetadata_try w i cn cs)"
  shows "tokenId (fst (with_price w (projr (fetchNFTMetadata_try w i cn cs))))
         = toString (projr (tokenOfOwnerByIndex w i))
         \<and> \<not> isl (tokenOfOwnerByIndex w i)"
proof -
  obtain e where e: "fetchNFTMetadata_try w i cn cs = Inr e"
    using assms by (cases "fetchNFTMetadata_try w i cn cs") auto
  then obtain tid md where "tokenOfOwnerByIndex w i = Inr tid" "e = make_entry tid md cn cs"
    unfolding fetchNFTMetadata_try_Inr_iff by blast
  then show ?thesis
    by (simp add: e with_price_fields make_entry_def)
qed


lemma reads_succeed_iff:
  "(\<exists>tid uri md. tokenOfOwnerByIndex w i = Inr tid \<and> tokenURI w tid = Inr uri
       \<and> fetch_metadata w (resolve uri) = Inr (Some md))
   \<longleftrightarrow> \<not> isl (fetchNFTMetadata_try w i cn cs)"
proof -
  have "\<not> isl (fetchNFTMetadata_try w i cn cs)
        \<longleftrightarrow> (\<exists>nft. fetchNFTMetadata_try w i cn cs = Inr nft)"
    by (cases "fetchNFTMetadata_try w i cn cs") auto
  then show ?thesis
    unfolding fetchNFTMetadata_try_Inr_iff by blast
qed

lemma read_fails_iff:
  "fetchNFTMetadata_try w i cn cs = Inl e \<longleftrightarrow>
     tokenOfOwnerByIndex w i = Inl e
     \<or> (\<exists>tid. tokenOfOwnerByIndex w i = Inr tid
          \<and> (tokenURI w tid = Inl e
              \<or> (\<exists>uri. tokenURI w tid = Inr uri
                   \<and> (fetch_metadata w (resolve uri) = Inl e
                       \<or> (fetch_metadata w (resolve uri) = Inr None \<and> e = TypeError)))))"
  unfolding fetchNFTMetadata_try_def by (auto split: sum.splits option.splits)

text \<open>
  C2 (as the source has it). In a run whose prerequisite reads succeed, the entries of
  the result are, in index order, one entry for every owned index at which the
  enumeration read, the \<^verbatim>\<open>tokenURI\<close> read and the fetch of the metadata document all
  succeed, carrying the token id enumerated at that index; an index at which one of
  these reads fails has no entry. Entries and failing indices together account for
  every owned index. The result holds no list of failures: a failing index leaves one
  console line with the index and the cause of the first failing read, and no stage or
  token id. When the enumeration returns different token ids at different indices, no
  token id occurs twice among the entries.
\<close>

theorem entries_are_the_indices_whose_reads_succeed:
  fixes w :: world and cn cs :: string and b :: nat and s :: state
    and ok :: "nat \<Rightarrow> bool" and fails :: "nat \<Rightarrow> exn \<Rightarrow> bool"
  defines "ok \<equiv> \<lambda>i. \<exists>tid uri md. tokenOfOwnerByIndex w i = Inr tid \<and> tokenURI w tid = Inr uri
                        \<and> fetch_metadata w (resolve uri) = Inr (Some md)"
    and "fails \<equiv> \<lambda>i e.
           tokenOfOwnerByIndex w i = Inl e
           \<or> (\<exists>tid. tokenOfOwnerByIndex w i = Inr tid
                \<and> (tokenURI w tid = Inl e
                    \<or> (\<exists>uri. tokenURI w tid = Inr uri
                         \<and> (fetch_metadata w (resolve uri) = Inl e
                             \<or> (fetch_metadata w (resolve uri) = Inr None \<and> e = TypeError)))))"
  assumes "contract_name w = Inr cn" "contract_symbol w = Inr cs" "balanceOf w = Inr b"
    "b < 2 ^ 53"
  shows "map tokenId (nfts (fetchNFTs w s)) =
       map (\<lambda>i. toString (projr (tokenOfOwnerByIndex w i))) (filter ok [0..<b])
   \<and> nfts (fetchNFTs w s) =
       map (\<lambda>i. fst (with_price w (projr (fetchNFTMetadata_try w i cn cs)))) (filter ok [0..<b])
   \<and> length (nfts (fetchNFTs w s)) + length (filter (\<lambda>i. \<not> ok i) [0..<b]) = b
   \<and> (\<forall>i. i < b \<and> \<not> ok i \<longrightarrow> (\<exists>e. fails i e))
   \<and> (\<forall>i e. count (console (fetchNFTs w s)) (ErrorFetchingNFT i e) =
         count (console s) (ErrorFetchingNFT i e) + (if i < b \<and> fails i e then 1 else 0))
   \<and> ((\<forall>i j t. i < b \<and> j < b \<and> i \<noteq> j \<and> tokenOfOwnerByIndex w i = Inr t
           \<longrightarrow> tokenOfOwnerByIndex w j \<noteq> Inr t)
        \<longrightarrow> distinct (map tokenId (nfts (fetchNFTs w s))))"
proof -
  note pre = assms(3-6)
  have ok: "ok = (\<lambda>i. \<not> isl (fetchNFTMetadata_try w i cn cs))"
    unfolding ok_def by (intro ext) (rule reads_succeed_iff)
  have fails: "fails = (\<lambda>i e. fetchNFTMetadata_try w i cn cs = Inl e)"
    unfolding fails_def by (intro ext) (rule read_fails_iff [symmetric])
  have entries: "nfts (fetchNFTs w s) =
       map (\<lambda>i. fst (with_price w (projr (fetchNFTMetadata_try w i cn cs)))) (filter ok [0..<b])"
    unfolding ok by (rule run_entries [OF pre])
  have ids: "map tokenId (nfts (fetchNFTs w s)) =
       map (\<lambda>i. toString (projr (tokenOfOwnerByIndex w i))) (filter ok [0..<b])"
    unfolding entries by (simp add: ok entry_tokenId)
  have "length (filter ok [0..<b]) + length (filter (\<lambda>i. \<not> ok i) [0..<b]) = length [0..<b]"
    by (rule sum_length_filter_compl)
  then have part: "length (nfts (fetchNFTs w s)) + length (filter (\<lambda>i. \<not> ok i) [0..<b]) = b"
    by (simp add: entries)
  have cause: "\<forall>i. i < b \<and> \<not> ok i \<longrightarrow> (\<exists>e. fails i e)"
    unfolding ok fails by (auto simp: isl_def)
  have logs: "\<forall>i e. count (console (fetchNFTs w s)) (ErrorFetchingNFT i e) =
         count (console s) (ErrorFetchingNFT i e) + (if i < b \<and> fails i e then 1 else 0)"
    unfolding fails using run_console_count [OF pre] by blast
  have dist: "distinct (map tokenId (nfts (fetchNFTs w s)))"
    if d: "\<forall>i j t. i < b \<and> j < b \<and> i \<noteq> j \<and> tokenOfOwnerByIndex w i = Inr t
           \<longrightarrow> tokenOfOwnerByIndex w j \<noteq> Inr t"
  proof -
    have "inj_on (\<lambda>i. toString (projr (tokenOfOwnerByIndex w i))) (set (filter ok [0..<b]))"
    proof (rule inj_onI)
      fix i j
      assume i: "i \<in> set (filter ok [0..<b])" and j: "j \<in> set (filter ok [0..<b])"
        and eq: "toString (projr (tokenOfOwnerByIndex w i))
                 = toString (projr (tokenOfOwnerByIndex w j))"
      obtain ti where ti: "tokenOfOwnerByIndex w i = Inr ti"
        using i unfolding ok_def by auto
      obtain tj where tj: "tokenOfOwnerByIndex w j = Inr tj"
        using j unfolding ok_def by auto
      have "ti = tj"
        using eq ti tj by (auto dest: toString_inj)
      moreover have "i < b" "j < b" using i j by auto
      ultimately show "i = j"
        using d ti tj by blast
    qed
    then show ?thesis
      unfolding ids by (simp add: distinct_map)
  qed
  from entries ids part cause logs dist show ?thesis by blast
qed

theorem entries_are_the_indices_whose_reads_succeed_witness:
  "contract_name (world_metadata_fails 11) = Inr ''Cats''
   \<and> contract_symbol (world_metadata_fails 11) = Inr ''CAT''
   \<and> balanceOf (world_metadata_fails 11) = Inr 3
   \<and> (3::nat) < 2 ^ 53
   \<and> tokenOfOwnerByIndex (world_metadata_fails 11) 0 = Inr 10
   \<and> tokenOfOwnerByIndex (world_metadata_fails 11) 1 = Inr 11
   \<and> tokenOfOwnerByIndex (world_metadata_fails 11) 2 = Inr 12
   \<and> tokenURI (world_metadata_fails 11) 11 = Inl (CallException ''revert'')
   \<and> map tokenId (nfts (fetchNFTs (world_metadata_fails 11) initial_state)) = [''10'', ''12'']
   \<and> distinct (map tokenId (nfts (fetchNFTs (world_metadata_fails 11) initial_state)))
   \<and> length (nfts (fetchNFTs (world_metadata_fails 11) initial_state)) = 2
   \<and> count (console (fetchNFTs (world_metadata_fails 11) initial_state))
         (ErrorFetchingNFT 1 (CallException ''revert'')) = 1"
proof -
  let ?w = "world_metadata_fails 11"
  let ?ok = "\<lambda>i. \<exists>tid uri md. tokenOfOwnerByIndex ?w i = Inr tid \<and> tokenURI ?w tid = Inr uri
                        \<and> fetch_metadata ?w (resolve uri) = Inr (Some md)"
  have h1: "contract_name ?w = Inr ''Cats''" and h2: "contract_symbol ?w = Inr ''CAT''"
    and h3: "balanceOf ?w = Inr 3" and h4: "(3::nat) < 2 ^ 53"
    by (simp_all add: world_metadata_fails_def example_world_def)
  have r: "tokenOfOwnerByIndex ?w 0 = Inr 10" "tokenOfOwnerByIndex ?w 1 = Inr 11"
    "tokenOfOwnerByIndex ?w 2 = Inr 12" "tokenURI ?w 11 = Inl (CallException ''revert'')"
    by (simp_all add: world_metadata_fails_def)
  have d: "\<forall>i j t. i < 3 \<and> j < 3 \<and> i \<noteq> j \<and> tokenOfOwnerByIndex ?w i = Inr t
           \<longrightarrow> tokenOfOwnerByIndex ?w j \<noteq> Inr t"
    by (auto simp: world_metadata_fails_def split: if_splits)
  have good: "filter ?ok [0..<3] = [0, 2]"
    by (simp add: upt_3 world_metadata_fails_def example_world_def)
  have bad: "filter (\<lambda>i. \<not> ?ok i) [0..<3] = [1]"
    by (simp add: upt_3 world_metadata_fails_def example_world_def)
  note t = entries_are_the_indices_whose_reads_succeed [OF h1 h2 h3 h4, of initial_state]
  from t have "map tokenId (nfts (fetchNFTs ?w initial_state))
        = map (\<lambda>i. toString (projr (tokenOfOwnerByIndex ?w i))) (filter ?ok [0..<3])"
    by blast
  then have ids: "map tokenId (nfts (fetchNFTs ?w initial_state)) = [''10'', ''12'']"
    unfolding good by (simp add: r toString_examples)
  from t d have dist: "distinct (map tokenId (nfts (fetchNFTs ?w initial_state)))"
    by blast
  from t have "length (nfts (fetchNFTs ?w initial_state))
        + length (filter (\<lambda>i. \<not> ?ok i) [0..<3]) = 3"
    by blast
  then have len: "length (nfts (fetchNFTs ?w initial_state)) = 2"
    unfolding bad by simp
  from t have "count (console (fetchNFTs ?w initial_state)) (ErrorFetchingNFT 1 (CallException ''revert''))
      = count (console initial_state) (ErrorFetchingNFT 1 (CallException ''revert''))
        + (if (1::nat) < 3 \<and> (tokenOfOwnerByIndex ?w 1 = Inl (CallException ''revert'')
           \<or> (\<exists>tid. tokenOfOwnerByIndex ?w 1 = Inr tid
                \<and> (tokenURI ?w tid = Inl (CallException ''revert'')
                    \<or> (\<exists>uri. tokenURI ?w tid = Inr uri
                         \<and> (fetch_metadata ?w (resolve uri) = Inl (CallException ''revert'')
                             \<or> (fetch_metadata ?w (resolve uri) = Inr None
                                 \<and> CallException ''revert'' = TypeError))))))
           then 1 else 0)"
    by blast
  then have c: "count (console (fetchNFTs ?w initial_state))
         (ErrorFetchingNFT 1 (CallException ''revert'')) = 1"
    using r by (simp add: initial_state_def)
  from h1 h2 h3 h4 r ids dist len c show ?thesis by blast
qed

text \<open>
  C2 as stated fails: the result has no failure records. Two worlds whose index 1
  enumerates different tokens (11 and 99), each failing at its metadata read, call for
  different failure records and end in the same state: the failed token is in no
  entry, and what the run leaves of the failure (one console line) names the index and
  the cause, not the token or a stage.
\<close>

theorem failed_token_not_recorded_counterexample:
  "spec_failures (world_metadata_fails 11) ''Cats'' ''CAT'' 3 =
     [\<lparr>failure_tokenId = Some 11, failure_stage = Metadata,
       failure_cause = CallException ''revert''\<rparr>]
   \<and> spec_failures (world_metadata_fails 99) ''Cats'' ''CAT'' 3 =
     [\<lparr>failure_tokenId = Some 99, failure_stage = Metadata,
       failure_cause = CallException ''revert''\<rparr>]
   \<and> fetchNFTs (world_metadata_fails 11) initial_state =
       \<lparr>nfts = [example_entry ''10'', example_entry ''12''], loading = False, error = None,
        priceLoading = False, console = {#ErrorFetchingNFT 1 (CallException ''revert'')#}\<rparr>
   \<and> fetchNFTs (world_metadata_fails 99) initial_state
       = fetchNFTs (world_metadata_fails 11) initial_state"
  by (simp add: run_eval spec_failures_def spec_failure_def world_metadata_fails_def
      example_entry_def)

text \<open>
  C7 (as the source has it). When the enumeration read of an owned index throws, the
  run continues and ends without a run-level error; the entries are those of the other
  indices, and the failing index leaves exactly one console line with the index and the
  cause. With balance 3, index 1 throwing and indices 0 and 2 resolving, the result has
  exactly the two entries of indices 0 and 2. No failure record is part of the result.
\<close>

theorem enumeration_failure_skips_index:
  assumes "contract_name w = Inr cn" "contract_symbol w = Inr cs" "balanceOf w = Inr b"
    "b < 2 ^ 53" "i < b" "tokenOfOwnerByIndex w i = Inl e"
  shows "error (fetchNFTs w s) = None
   \<and> nfts (fetchNFTs w s) =
       map (\<lambda>j. fst (with_price w (projr (fetchNFTMetadata_try w j cn cs))))
           (filter (\<lambda>j. \<not> isl (fetchNFTMetadata_try w j cn cs)) (filter (\<lambda>j. j \<noteq> i) [0..<b]))
   \<and> count (console (fetchNFTs w s)) (ErrorFetchingNFT i e)
       = count (console s) (ErrorFetchingNFT i e) + 1
   \<and> (b = 3 \<and> i = 1 \<and> fetchNFTMetadata_try w 0 cn cs = Inr e0
        \<and> fetchNFTMetadata_try w 2 cn cs = Inr e2
      \<longrightarrow> nfts (fetchNFTs w s) = [fst (with_price w e0), fst (with_price w e2)])"
proof -
  let ?ok = "\<lambda>j. \<not> isl (fetchNFTMetadata_try w j cn cs)"
  note pre = assms(1-4)
  have fail: "fetchNFTMetadata_try w i cn cs = Inl e"
    using assms(6) by (rule fetchNFTMetadata_try_enumeration_fails)
  have err: "error (fetchNFTs w s) = None"
    by (simp add: fetchNFTs_ok [OF pre])
  have "filter ?ok (filter (\<lambda>j. j \<noteq> i) [0..<b]) = filter ?ok [0..<b]"
    using fail by (auto intro: filter_cong)
  then have skip: "nfts (fetchNFTs w s) =
       map (\<lambda>j. fst (with_price w (projr (fetchNFTMetadata_try w j cn cs))))
           (filter ?ok (filter (\<lambda>j. j \<noteq> i) [0..<b]))"
    by (simp only: run_entries [OF pre])
  have line: "count (console (fetchNFTs w s)) (ErrorFetchingNFT i e)
       = count (console s) (ErrorFetchingNFT i e) + 1"
    using assms(5) fail by (simp add: run_console_count [OF pre])
  have scen: "nfts (fetchNFTs w s) = [fst (with_price w e0), fst (with_price w e2)]"
    if "b = 3 \<and> i = 1 \<and> fetchNFTMetadata_try w 0 cn cs = Inr e0
        \<and> fetchNFTMetadata_try w 2 cn cs = Inr e2"
    using that fail by (simp add: run_entries [OF pre] upt_3)
  from err skip line scen show ?thesis by blast
qed

theorem enumeration_failure_skips_index_witness:
  "contract_name world_ownership_fails = Inr ''Cats''
   \<and> contract_symbol world_ownership_fails = Inr ''CAT''
   \<and> balanceOf world_ownership_fails = Inr 3
   \<and> (3::nat) < 2 ^ 53 \<and> (1::nat) < 3
   \<and> tokenOfOwnerByIndex world_ownership_fails 1 = Inl (CallException ''revert'')
   \<and> fetchNFTMetadata_try world_ownership_fails 0 ''Cats'' ''CAT''
       = Inr (make_entry 10 example_metadata ''Cats'' ''CAT'')
   \<and> fetchNFTMetadata_try world_ownership_fails 2 ''Cats'' ''CAT''
       = Inr (make_entry 12 example_metadata ''Cats'' ''CAT'')
   \<and> error (fetchNFTs world_ownership_fails initial_state) = None
   \<and> nfts (fetchNFTs world_ownership_fails initial_state)
       = [fst (with_price world_ownership_fails (make_entry 10 example_metadata ''Cats'' ''CAT'')),
          fst (with_price world_ownership_fails (make_entry 12 example_metadata ''Cats'' ''CAT''))]
   \<and> count (console (fetchNFTs world_ownership_fails initial_state))
         (ErrorFetchingNFT 1 (CallException ''revert'')) = 1"
proof -
  let ?w = world_ownership_fails
  have h1: "contract_name ?w = Inr ''Cats''" and h2: "contract_symbol ?w = Inr ''CAT''"
    and h3: "balanceOf ?w = Inr 3" and h4: "(3::nat) < 2 ^ 53" and h5: "(1::nat) < 3"
    and h6: "tokenOfOwnerByIndex ?w 1 = Inl (CallException ''revert'')"
    by (simp_all add: world_ownership_fails_def example_world_def)
  have f0: "fetchNFTMetadata_try ?w 0 ''Cats'' ''CAT'' = Inr (make_entry 10 example_metadata ''Cats'' ''CAT'')"
    and f2: "fetchNFTMetadata_try ?w 2 ''Cats'' ''CAT'' = Inr (make_entry 12 example_metadata ''Cats'' ''CAT'')"
    by (simp_all add: fetchNFTMetadata_try_def world_ownership_fails_def example_world_def)
  note t = enumeration_failure_skips_index [OF h1 h2 h3 h4 h5 h6, of initial_state
      "make_entry 10 example_metadata ''Cats'' ''CAT''" "make_entry 12 example_metadata ''Cats'' ''CAT''"]
  from t have a: "error (fetchNFTs ?w initial_state) = None" by blast
  from t f0 f2 have b: "nfts (fetchNFTs ?w initial_state)
       = [fst (with_price ?w (make_entry 10 example_metadata ''Cats'' ''CAT'')),
          fst (with_price ?w (make_entry 12 example_metadata ''Cats'' ''CAT''))]"
    by blast
  from t have c: "count (console (fetchNFTs ?w initial_state))
         (ErrorFetchingNFT 1 (CallException ''revert'')) = 1"
    by (simp add: initial_state_def)
  from h1 h2 h3 h4 h5 h6 f0 f2 a b c show ?thesis by blast
qed

text \<open>
  C7 as stated fails: the result records no failure with stage ownership. A run whose
  index 1 fails at the enumeration read and a run whose index 1 enumerates a token and
  fails at the metadata read call for failure records of different stages and end in
  the same state, console included.
\<close>

theorem failure_stage_not_recorded_counterexample:
  "spec_failures world_ownership_fails ''Cats'' ''CAT'' 3 =
     [\<lparr>failure_tokenId = None, failure_stage = Ownership,
       failure_cause = CallException ''revert''\<rparr>]
   \<and> spec_failures (world_metadata_fails 11) ''Cats'' ''CAT'' 3 =
     [\<lparr>failure_tokenId = Some 11, failure_stage = Metadata,
       failure_cause = CallException ''revert''\<rparr>]
   \<and> fetchNFTs world_ownership_fails initial_state =
       \<lparr>nfts = [example_entry ''10'', example_entry ''12''], loading = False, error = None,
        priceLoading = False, console = {#ErrorFetchingNFT 1 (CallException ''revert'')#}\<rparr>
   \<and> fetchNFTs (world_metadata_fails 11) initial_state
       = fetchNFTs world_ownership_fails initial_state"
  by (simp add: run_eval spec_failures_def spec_failure_def world_ownership_fails_def
      world_metadata_fails_def example_entry_def)

text \<open>No entry that a run stores has the price 0.\<close>

lemma with_price_nonzero: "lowestPrice (fst (with_price w nft)) \<noteq> Some 0"
proof (cases "fst (fetchOpenSeaPrice w (tokenId nft))")
  case None
  then show ?thesis by (simp add: with_price_fields)
next
  case (Some pd)
  then obtain amount and d :: nat where "amount \<noteq> 0" "price pd = amount / 10 ^ d"
    unfolding fetchOpenSeaPrice_Some_iff by auto
  then have "price pd \<noteq> 0" by simp
  then show ?thesis using Some by (simp add: with_price_fields)
qed

lemma fetchNFTs_try_entries:
  "fetchNFTs_try w s = Inr s' \<Longrightarrow> \<exists>es. nfts s' = map (\<lambda>e. fst (with_price w e)) es"
  unfolding fetchNFTs_try_def
  by (auto simp: Let_def comp_def split: sum.splits)

text \<open>
  So the entries of the component never have the price 0: the component mounts with no
  entries, and \<^verbatim>\<open>setNfts\<close> is called by \<^verbatim>\<open>fetchNFTs\<close> only.
\<close>

lemma initial_prices_nonzero: "\<forall>e\<in>set (nfts initial_state). lowestPrice e \<noteq> Some 0"
  by (simp add: initial_state_def)

lemma run_keeps_prices_nonzero:
  assumes "\<forall>e\<in>set (nfts s). lowestPrice e \<noteq> Some 0"
  shows "\<forall>e\<in>set (nfts (fetchNFTs w s)). lowestPrice e \<noteq> Some 0"
proof (cases "fetchNFTs_try w (s\<lparr>loading := True, error := None\<rparr>)")
  case (Inl e)
  then have "nfts (fetchNFTs w s) = nfts s"
    by (simp add: fetchNFTs_failed)
  then show ?thesis using assms by simp
next
  case (Inr s')
  then obtain es where "nfts s' = map (\<lambda>e. fst (with_price w e)) es"
    using fetchNFTs_try_entries by blast
  moreover have "nfts (fetchNFTs w s) = nfts s'"
    using Inr by (simp add: fetchNFTs_def Let_def)
  ultimately show ?thesis
    using with_price_nonzero by auto
qed

subsection \<open>The view\<close>

lemma compare_price_le_iff:
  "SortCompare (compareNFT lc SortByPrice) x y \<le> 0 \<longleftrightarrow> price_key x \<le> price_key y"
  by (cases "lowestPrice x"; cases "lowestPrice y")
    (auto simp: SortCompare_def compareNFT_def falsy_def price_key_def less_eq_prod_def)

lemma compare_price_eq_iff:
  "SortCompare (compareNFT lc SortByPrice) x y = 0 \<longleftrightarrow> price_key x = price_key y"
  by (cases "lowestPrice x"; cases "lowestPrice y")
    (auto simp: SortCompare_def compareNFT_def falsy_def price_key_def)

lemma insert_sorted_price:
  "insert_sorted (compareNFT lc SortByPrice) x ys = insort_key price_key x ys"
  by (induction ys) (simp_all add: compare_price_le_iff)

lemma sorted_copy_price:
  "sorted_copy (compareNFT lc SortByPrice) xs = sort_key price_key xs"
  by (induction xs) (simp_all add: insert_sorted_price)

lemma mset_insert_sorted: "mset (insert_sorted c x ys) = add_mset x (mset ys)"
  by (induction ys) simp_all

lemma mset_sorted_copy: "mset (sorted_copy c xs) = mset xs"
  by (induction xs) (simp_all add: mset_insert_sorted)

lemma sorted_price_keys:
  "sorted (map price_key (sorted_copy (compareNFT lc SortByPrice) xs))"
  by (simp add: sorted_copy_price)

lemma price_key_falsy: "falsy (lowestPrice e) \<longleftrightarrow> fst (price_key e)"
  by (auto simp: falsy_def price_key_def split: option.splits)

lemma price_key_Some: "lowestPrice e = Some p \<Longrightarrow> p \<noteq> 0 \<Longrightarrow> price_key e = (False, p)"
  by (simp add: price_key_def)

lemma falsy_after_priced:
  assumes "ys = sorted_copy (compareNFT lc SortByPrice) xs"
    and "i < length ys" "j < length ys"
    and "falsy (lowestPrice (ys ! i))" "\<not> falsy (lowestPrice (ys ! j))"
  shows "j < i"
proof (rule ccontr)
  assume "\<not> j < i"
  then have "i \<le> j" by simp
  moreover have "sorted (map price_key ys)"
    unfolding assms(1) by (rule sorted_price_keys)
  ultimately have "map price_key ys ! i \<le> map price_key ys ! j"
    using assms(3) by (simp add: sorted_iff_nth_mono)
  then have "price_key (ys ! i) \<le> price_key (ys ! j)"
    using assms(2,3) by simp
  then show False
    using assms(4,5) by (auto simp: price_key_falsy less_eq_prod_def)
qed

lemma priced_ascending:
  assumes "ys = sorted_copy (compareNFT lc SortByPrice) xs"
    and "i < j" "j < length ys"
    and "lowestPrice (ys ! i) = Some p" "lowestPrice (ys ! j) = Some q" "p \<noteq> 0" "q \<noteq> 0"
  shows "p \<le> q"
proof -
  have "sorted (map price_key ys)"
    unfolding assms(1) by (rule sorted_price_keys)
  then have "map price_key ys ! i \<le> map price_key ys ! j"
    using assms(2,3) by (simp add: sorted_iff_nth_mono)
  then have "price_key (ys ! i) \<le> price_key (ys ! j)"
    using assms(2,3) by simp
  then show ?thesis
    using assms(4-7) by (simp add: price_key_Some less_eq_prod_def)
qed


text \<open>
  The arrangement is determined by the three properties of \<^verbatim>\<open>Array.prototype.sort\<close>
  with this comparator (a permutation, ordered, stable), so the insertion sort of the
  model computes what every conforming implementation computes.
\<close>

lemma price_sort_unique:
  assumes "mset ys = mset xs"
    and "sorted (map price_key ys)"
    and "\<forall>k. filter (\<lambda>e. price_key e = k) ys = filter (\<lambda>e. price_key e = k) xs"
  shows "ys = sorted_copy (compareNFT lc SortByPrice) xs"
proof -
  have "\<And>k. k \<in> set ys \<Longrightarrow>
      filter (\<lambda>e. price_key k = price_key e) ys = filter (\<lambda>e. price_key k = price_key e) xs"
  proof -
    fix k
    have a: "filter (\<lambda>e. price_key e = price_key k) ys
             = filter (\<lambda>e. price_key e = price_key k) xs"
      using assms(3) by blast
    have b: "(\<lambda>e. price_key k = price_key e) = (\<lambda>e. price_key e = price_key k)"
      by auto
    show "filter (\<lambda>e. price_key k = price_key e) ys
          = filter (\<lambda>e. price_key k = price_key e) xs"
      unfolding b by (rule a)
  qed
  then have "sort_key price_key xs = ys"
    using assms(1,2) by (intro properties_for_sort_key) auto
  then show ?thesis
    by (simp add: sorted_copy_price)
qed

text \<open>
  What the price sort does with any list, a zero price included: the sorted list has
  the same entries; every entry whose price is falsy (absent or zero) comes after every
  entry with a non-zero price; the non-zero prices ascend; entries with equal keys keep
  their input order.
\<close>

lemma price_sort_properties:
  "mset (sorted_copy (compareNFT lc SortByPrice) xs) = mset xs
   \<and> (\<forall>i j. i < length xs \<and> j < length xs
          \<and> falsy (lowestPrice (sorted_copy (compareNFT lc SortByPrice) xs ! i))
          \<and> \<not> falsy (lowestPrice (sorted_copy (compareNFT lc SortByPrice) xs ! j))
        \<longrightarrow> j < i)
   \<and> (\<forall>i j p q. i < j \<and> j < length xs
          \<and> lowestPrice (sorted_copy (compareNFT lc SortByPrice) xs ! i) = Some p
          \<and> lowestPrice (sorted_copy (compareNFT lc SortByPrice) xs ! j) = Some q
          \<and> p \<noteq> 0 \<and> q \<noteq> 0
        \<longrightarrow> p \<le> q)
   \<and> (\<forall>k. filter (\<lambda>e. price_key e = k) (sorted_copy (compareNFT lc SortByPrice) xs)
          = filter (\<lambda>e. price_key e = k) xs)
   \<and> (\<forall>a b. price_key a = price_key b \<longleftrightarrow> SortCompare (compareNFT lc SortByPrice) a b = 0)
   \<and> ((\<forall>e\<in>set xs. lowestPrice e \<noteq> Some 0)
        \<longrightarrow> (\<forall>i j. i < length xs \<and> j < length xs
               \<and> lowestPrice (sorted_copy (compareNFT lc SortByPrice) xs ! i) = None
               \<and> lowestPrice (sorted_copy (compareNFT lc SortByPrice) xs ! j) \<noteq> None
             \<longrightarrow> j < i))"
proof -
  let ?ys = "sorted_copy (compareNFT lc SortByPrice) xs"
  have m: "mset ?ys = mset xs" by (rule mset_sorted_copy)
  have len: "length ?ys = length xs"
    using m by (metis size_mset)
  have last: "\<forall>i j. i < length xs \<and> j < length xs
          \<and> falsy (lowestPrice (?ys ! i)) \<and> \<not> falsy (lowestPrice (?ys ! j)) \<longrightarrow> j < i"
    using falsy_after_priced [OF refl, of _ lc xs] len by auto
  have asc: "\<forall>i j p q. i < j \<and> j < length xs
          \<and> lowestPrice (?ys ! i) = Some p \<and> lowestPrice (?ys ! j) = Some q
          \<and> p \<noteq> 0 \<and> q \<noteq> 0 \<longrightarrow> p \<le> q"
    using priced_ascending [OF refl, of _ _ lc xs] len by auto
  have stable: "\<forall>k. filter (\<lambda>e. price_key e = k) ?ys = filter (\<lambda>e. price_key e = k) xs"
    by (simp add: sorted_copy_price sort_key_stable)
  have keys: "\<forall>a b. price_key a = price_key b \<longleftrightarrow> SortCompare (compareNFT lc SortByPrice) a b = 0"
    by (simp add: compare_price_eq_iff)
  have nz: "\<forall>i j. i < length xs \<and> j < length xs
               \<and> lowestPrice (?ys ! i) = None \<and> lowestPrice (?ys ! j) \<noteq> None \<longrightarrow> j < i"
    if "\<forall>e\<in>set xs. lowestPrice e \<noteq> Some 0"
  proof (intro allI impI)
    fix i j
    assume a: "i < length xs \<and> j < length xs
               \<and> lowestPrice (?ys ! i) = None \<and> lowestPrice (?ys ! j) \<noteq> None"
    then have "?ys ! j \<in> set ?ys" using len by simp
    then have "?ys ! j \<in> set xs" using m by (metis set_mset_mset)
    then have "lowestPrice (?ys ! j) \<noteq> Some 0" using that by blast
    then have "\<not> falsy (lowestPrice (?ys ! j))" using a by (simp add: falsy_def)
    moreover have "falsy (lowestPrice (?ys ! i))" using a by (simp add: falsy_def)
    ultimately show "j < i" using last a by blast
  qed
  from m last asc stable keys nz show ?thesis by blast
qed

text \<open>
  A price that is present and zero sorts with the absent prices. No entry that a run
  stores has such a price (\<open>run_keeps_prices_nonzero\<close>).
\<close>

lemma zero_price_sorts_with_absent:
  "sorted_copy (compareNFT (\<lambda>a b. 0) SortByPrice)
       [priced ''1'' None, priced ''2'' (Some 0), priced ''3'' (Some 5)]
     = [priced ''3'' (Some 5), priced ''1'' None, priced ''2'' (Some 0)]"
  by (simp add: SortCompare_def compareNFT_def falsy_def priced_def)

lemma price_key_of_price:
  assumes "lowestPrice e \<noteq> Some 0"
  shows "lowestPrice e = k \<longleftrightarrow>
         price_key e = (case k of None \<Rightarrow> (True, 0) | Some p \<Rightarrow> (False, p))"
  using assms by (cases k; cases "lowestPrice e") (auto simp: price_key_def)

lemma toString_13: "toString 13 = ''13''"
  by (simp add: toString.simps digitChar_def)

text \<open>
  C4. For every list of entries the component can hold (none of them has the price 0:
  \<open>initial_prices_nonzero\<close>, \<open>run_keeps_prices_nonzero\<close>), the price sort keeps the
  entries, places every absent-price entry after every present-price entry, orders
  the present-price entries by ascending price, and is stable: the entries with any
  one price, and the entries without a price, keep their input order. The component
  sorts by price in the ascending direction only, so no requested direction changes
  this.
\<close>

theorem price_sort_absent_last_ascending_stable:
  assumes "\<forall>e\<in>set xs. lowestPrice e \<noteq> Some 0"
  shows "mset (sorted_copy (compareNFT lc SortByPrice) xs) = mset xs
   \<and> (\<forall>i j. i < length xs \<and> j < length xs
          \<and> lowestPrice (sorted_copy (compareNFT lc SortByPrice) xs ! i) = None
          \<and> lowestPrice (sorted_copy (compareNFT lc SortByPrice) xs ! j) \<noteq> None
        \<longrightarrow> j < i)
   \<and> (\<forall>i j p q. i < j \<and> j < length xs
          \<and> lowestPrice (sorted_copy (compareNFT lc SortByPrice) xs ! i) = Some p
          \<and> lowestPrice (sorted_copy (compareNFT lc SortByPrice) xs ! j) = Some q
        \<longrightarrow> p \<le> q)
   \<and> (\<forall>k. filter (\<lambda>e. lowestPrice e = k) (sorted_copy (compareNFT lc SortByPrice) xs)
          = filter (\<lambda>e. lowestPrice e = k) xs)"
proof -
  let ?ys = "sorted_copy (compareNFT lc SortByPrice) xs"
  note p = price_sort_properties [of lc xs]
  have m: "mset ?ys = mset xs" using p by blast
  have len: "length ?ys = length xs" using m by (metis size_mset)
  have nz: "\<forall>e\<in>set ?ys. lowestPrice e \<noteq> Some 0"
    using assms m by (metis set_mset_mset)
  have last: "\<forall>i j. i < length xs \<and> j < length xs
          \<and> lowestPrice (?ys ! i) = None \<and> lowestPrice (?ys ! j) \<noteq> None \<longrightarrow> j < i"
    using p assms by blast
  have asc: "\<forall>i j p q. i < j \<and> j < length xs
          \<and> lowestPrice (?ys ! i) = Some p \<and> lowestPrice (?ys ! j) = Some q \<longrightarrow> p \<le> q"
  proof (intro allI impI)
    fix i j a b
    assume h: "i < j \<and> j < length xs
          \<and> lowestPrice (?ys ! i) = Some a \<and> lowestPrice (?ys ! j) = Some b"
    then have "?ys ! i \<in> set ?ys" "?ys ! j \<in> set ?ys"
      using len by simp_all
    then have "a \<noteq> 0" "b \<noteq> 0"
      using nz h by auto
    with p h show "a \<le> b" by blast
  qed
  have stable: "\<forall>k. filter (\<lambda>e. lowestPrice e = k) ?ys = filter (\<lambda>e. lowestPrice e = k) xs"
  proof
    fix k
    let ?k = "case k of None \<Rightarrow> (True, 0::rat) | Some p \<Rightarrow> (False, p)"
    have "filter (\<lambda>e. lowestPrice e = k) ?ys = filter (\<lambda>e. price_key e = ?k) ?ys"
      using nz by (intro filter_cong) (auto simp: price_key_of_price)
    also have "\<dots> = filter (\<lambda>e. price_key e = ?k) xs"
      using p by blast
    also have "\<dots> = filter (\<lambda>e. lowestPrice e = k) xs"
      using assms by (intro filter_cong) (auto simp: price_key_of_price)
    finally show "filter (\<lambda>e. lowestPrice e = k) ?ys = filter (\<lambda>e. lowestPrice e = k) xs" .
  qed
  from m last asc stable show ?thesis by blast
qed

theorem price_sort_absent_last_ascending_stable_witness:
  "map tokenId (nfts (fetchNFTs world_mixed_prices initial_state)) = [''10'', ''11'', ''12'', ''13'']
   \<and> map lowestPrice (nfts (fetchNFTs world_mixed_prices initial_state))
       = [None, Some 5, None, Some 2]
   \<and> map tokenId (sorted_copy (compareNFT (\<lambda>a b. 0) SortByPrice)
                      (nfts (fetchNFTs world_mixed_prices initial_state)))
       = [''13'', ''11'', ''10'', ''12'']
   \<and> mset (sorted_copy (compareNFT (\<lambda>a b. 0) SortByPrice)
               (nfts (fetchNFTs world_mixed_prices initial_state)))
       = mset (nfts (fetchNFTs world_mixed_prices initial_state))
   \<and> (1::nat) < 2
   \<and> (2::rat) \<le> 5
   \<and> map tokenId (filter (\<lambda>e. lowestPrice e = None)
         (sorted_copy (compareNFT (\<lambda>a b. 0) SortByPrice)
            (nfts (fetchNFTs world_mixed_prices initial_state))))
       = [''10'', ''12'']"
proof -
  let ?lc = "\<lambda>(a::string) (b::string). 0::int"
  let ?xs = "nfts (fetchNFTs world_mixed_prices initial_state)"
  let ?ys = "sorted_copy (compareNFT ?lc SortByPrice) ?xs"
  let ?a = "(example_entry ''10'')\<lparr>lowestPrice := None, currency := None\<rparr>"
  let ?b = "example_entry ''11''"
  let ?c = "(example_entry ''12'')\<lparr>lowestPrice := None, currency := None\<rparr>"
  let ?d = "(example_entry ''13'')\<lparr>lowestPrice := Some 2\<rparr>"
  have h: "\<forall>e\<in>set ?xs. lowestPrice e \<noteq> Some 0"
    using initial_prices_nonzero by (rule run_keeps_prices_nonzero)
  have xs: "?xs = [?a, ?b, ?c, ?d]"
    by (simp add: run_eval toString_13 world_mixed_prices_def example_entry_def)
  have ys: "?ys = [?d, ?b, ?a, ?c]"
    unfolding xs by (simp add: SortCompare_def compareNFT_def falsy_def example_entry_def)
  note t = price_sort_absent_last_ascending_stable [OF h, of ?lc]
  have ids: "map tokenId ?xs = [''10'', ''11'', ''12'', ''13'']"
    unfolding xs by (simp add: example_entry_def)
  have prices: "map lowestPrice ?xs = [None, Some 5, None, Some 2]"
    unfolding xs by (simp add: example_entry_def)
  have sorted_ids: "map tokenId ?ys = [''13'', ''11'', ''10'', ''12'']"
    unfolding ys by (simp add: example_entry_def)
  from t have m: "mset ?ys = mset ?xs" by blast
  have at: "(2::nat) < length ?xs" "(1::nat) < length ?xs" "(0::nat) < 1"
    "lowestPrice (?ys ! 2) = None" "lowestPrice (?ys ! 1) \<noteq> None"
    "lowestPrice (?ys ! 0) = Some 2" "lowestPrice (?ys ! 1) = Some 5"
    unfolding ys by (simp_all add: xs example_entry_def)
  from t have "\<forall>i j. i < length ?xs \<and> j < length ?xs
          \<and> lowestPrice (?ys ! i) = None \<and> lowestPrice (?ys ! j) \<noteq> None \<longrightarrow> j < i"
    by blast
  with at have last: "(1::nat) < 2" by blast
  from t have "\<forall>i j p q. i < j \<and> j < length ?xs
          \<and> lowestPrice (?ys ! i) = Some p \<and> lowestPrice (?ys ! j) = Some q \<longrightarrow> p \<le> q"
    by blast
  with at have asc: "(2::rat) \<le> 5" by blast
  from t have "filter (\<lambda>e. lowestPrice e = None) ?ys = filter (\<lambda>e. lowestPrice e = None) ?xs"
    by blast
  then have stable: "map tokenId (filter (\<lambda>e. lowestPrice e = None) ?ys) = [''10'', ''12'']"
    unfolding xs by (simp add: example_entry_def)
  from ids prices sorted_ids m last asc stable show ?thesis by blast
qed

lemma lowest_price_first_listing:
  assumes "sell_orders data = Some (order # rest)" "current_price order = Some cp" "cp \<noteq> []"
    "payment_token_contract order = Some token" "parseFloat cp = Some amount"
    "decimals token = Some d"
  shows "lowest_price data = Inr (Some (amount / 10 ^ d))"
  using assms by (simp add: lowest_price_def first_order_def)

text \<open>
  C10. When the first listing's price text parses and divides to 0, the price reader
  returns \<^verbatim>\<open>null\<close> and logs nothing, exactly as it does when there are no listings.
  The price comparator gives an entry with price 0 the results it gives the same entry
  without a price, and the sorted view has every entry with price 0 after every entry
  with a positive price.
\<close>

theorem zero_price_counts_as_absent:
  "(fetch_opensea w tid = Inr resp \<and> ok resp \<and> json resp = Inr (Some data)
      \<and> sell_orders data = Some (order # rest) \<and> current_price order = Some cp \<and> cp \<noteq> []
      \<and> payment_token_contract order = Some token \<and> parseFloat cp = Some amount
      \<and> decimals token = Some d \<and> amount / 10 ^ d = 0
     \<longrightarrow> fetchOpenSeaPrice w tid = (None, {#}))
   \<and> (fetch_opensea w tid = Inr resp \<and> ok resp \<and> json resp = Inr (Some data)
      \<and> sell_orders data = Some []
     \<longrightarrow> fetchOpenSeaPrice w tid = (None, {#}))
   \<and> (lowestPrice a = Some 0
     \<longrightarrow> compareNFT lc SortByPrice a b = compareNFT lc SortByPrice (a\<lparr>lowestPrice := None\<rparr>) b
         \<and> compareNFT lc SortByPrice b a = compareNFT lc SortByPrice b (a\<lparr>lowestPrice := None\<rparr>))
   \<and> (\<forall>i j p. i < length xs \<and> j < length xs
          \<and> lowestPrice (sorted_copy (compareNFT lc SortByPrice) xs ! i) = Some 0
          \<and> lowestPrice (sorted_copy (compareNFT lc SortByPrice) xs ! j) = Some p \<and> 0 < p
        \<longrightarrow> j < i)"
proof -
  let ?ys = "sorted_copy (compareNFT lc SortByPrice) xs"
  have zero: "fetchOpenSeaPrice w tid = (None, {#})"
    if "fetch_opensea w tid = Inr resp \<and> ok resp \<and> json resp = Inr (Some data)
      \<and> sell_orders data = Some (order # rest) \<and> current_price order = Some cp \<and> cp \<noteq> []
      \<and> payment_token_contract order = Some token \<and> parseFloat cp = Some amount
      \<and> decimals token = Some d \<and> amount / 10 ^ d = 0"
  proof -
    have "lowest_price data = Inr (Some (amount / 10 ^ d))"
      using that by (intro lowest_price_first_listing) auto
    then show ?thesis
      using that by (simp add: fetchOpenSeaPrice_def fetchOpenSeaPrice_try_def)
  qed
  have none: "fetchOpenSeaPrice w tid = (None, {#})"
    if "fetch_opensea w tid = Inr resp \<and> ok resp \<and> json resp = Inr (Some data)
      \<and> sell_orders data = Some []"
    using that
    by (simp add: fetchOpenSeaPrice_def fetchOpenSeaPrice_try_def lowest_price_def first_order_def)
  have cmp: "compareNFT lc SortByPrice a b = compareNFT lc SortByPrice (a\<lparr>lowestPrice := None\<rparr>) b
         \<and> compareNFT lc SortByPrice b a = compareNFT lc SortByPrice b (a\<lparr>lowestPrice := None\<rparr>)"
    if "lowestPrice a = Some 0"
    using that by (simp add: compareNFT_def falsy_def)
  have len: "length ?ys = length xs"
    by (metis mset_sorted_copy size_mset)
  have ord: "\<forall>i j p. i < length xs \<and> j < length xs
          \<and> lowestPrice (?ys ! i) = Some 0 \<and> lowestPrice (?ys ! j) = Some p \<and> 0 < p
        \<longrightarrow> j < i"
  proof (intro allI impI)
    fix i j p
    assume a: "i < length xs \<and> j < length xs
          \<and> lowestPrice (?ys ! i) = Some 0 \<and> lowestPrice (?ys ! j) = Some p \<and> 0 < p"
    then have "falsy (lowestPrice (?ys ! i))" "\<not> falsy (lowestPrice (?ys ! j))"
      by (simp_all add: falsy_def)
    then show "j < i"
      using falsy_after_priced [OF refl, of i lc xs j] a len by simp
  qed
  from zero none cmp ord show ?thesis by blast
qed

theorem zero_price_counts_as_absent_witness:
  "fetch_opensea world_zero_price ''10'' = Inr (listings [listing ''0'' example_token])
   \<and> parseFloat ''0'' = Some 0
   \<and> fetchOpenSeaPrice world_zero_price ''10'' = (None, {#})
   \<and> fetch_opensea (example_world\<lparr>fetch_opensea := (\<lambda>t. Inr (listings []))\<rparr>) ''10''
       = Inr (listings [])
   \<and> fetchOpenSeaPrice (example_world\<lparr>fetch_opensea := (\<lambda>t. Inr (listings []))\<rparr>) ''10''
       = (None, {#})
   \<and> compareNFT (\<lambda>a b. 0) SortByPrice (priced ''2'' (Some 0)) (priced ''3'' (Some 5))
       = compareNFT (\<lambda>a b. 0) SortByPrice ((priced ''2'' (Some 0))\<lparr>lowestPrice := None\<rparr>)
           (priced ''3'' (Some 5))
   \<and> sorted_copy (compareNFT (\<lambda>a b. 0) SortByPrice) [priced ''2'' (Some 0), priced ''3'' (Some 5)]
       = [priced ''3'' (Some 5), priced ''2'' (Some 0)]
   \<and> (0::nat) < 1"
proof -
  let ?lc = "\<lambda>(a::string) (b::string). 0::int"
  let ?xs = "[priced ''2'' (Some 0), priced ''3'' (Some 5)]"
  let ?ys = "sorted_copy (compareNFT ?lc SortByPrice) ?xs"
  let ?resp = "listings [listing ''0'' example_token]"
  let ?data = "\<lparr>sell_orders = Some [listing ''0'' example_token]\<rparr>"
  let ?w0 = "example_world\<lparr>fetch_opensea := (\<lambda>t. Inr (listings []))\<rparr>"
  note t = zero_price_counts_as_absent [of world_zero_price "''10''" ?resp ?data
      "listing ''0'' example_token" "[]" "''0''" example_token 0 2 "priced ''2'' (Some 0)" ?lc
      "priced ''3'' (Some 5)" ?xs]
  note t0 = zero_price_counts_as_absent [of ?w0 "''10''" "listings []" "\<lparr>sell_orders = Some []\<rparr>"]
  have h1: "fetch_opensea world_zero_price ''10'' = Inr ?resp"
    by (simp add: world_zero_price_def)
  have h2: "parseFloat ''0'' = Some 0"
    by (simp add: run_eval)
  have h3: "ok ?resp \<and> json ?resp = Inr (Some ?data)
      \<and> sell_orders ?data = Some (listing ''0'' example_token # [])
      \<and> current_price (listing ''0'' example_token) = Some ''0'' \<and> ''0'' \<noteq> []
      \<and> payment_token_contract (listing ''0'' example_token) = Some example_token
      \<and> decimals example_token = Some 2 \<and> (0::rat) / 10 ^ 2 = 0"
    by (simp add: listings_def listing_def example_token_def)
  from t h1 h2 h3 have a: "fetchOpenSeaPrice world_zero_price ''10'' = (None, {#})"
    by blast
  have g1: "fetch_opensea ?w0 ''10'' = Inr (listings [])"
    by simp
  have g2: "ok (listings []) \<and> json (listings []) = Inr (Some \<lparr>sell_orders = Some []\<rparr>)
      \<and> sell_orders \<lparr>sell_orders = Some []\<rparr> = Some []"
    by (simp add: listings_def)
  from t0 g1 g2 have a0: "fetchOpenSeaPrice ?w0 ''10'' = (None, {#})"
    by blast
  have h4: "lowestPrice (priced ''2'' (Some 0)) = Some 0"
    by (simp add: priced_def)
  from t h4 have b: "compareNFT ?lc SortByPrice (priced ''2'' (Some 0)) (priced ''3'' (Some 5))
       = compareNFT ?lc SortByPrice ((priced ''2'' (Some 0))\<lparr>lowestPrice := None\<rparr>)
           (priced ''3'' (Some 5))"
    by blast
  have ev: "?ys = [priced ''3'' (Some 5), priced ''2'' (Some 0)]"
    by (simp add: SortCompare_def compareNFT_def falsy_def priced_def)
  have h5: "(1::nat) < length ?xs \<and> 0 < length ?xs \<and> lowestPrice (?ys ! 1) = Some 0
      \<and> lowestPrice (?ys ! 0) = Some 5 \<and> (0::rat) < 5"
    unfolding ev by (simp add: priced_def)
  from t have "\<forall>i j p. i < length ?xs \<and> j < length ?xs
          \<and> lowestPrice (?ys ! i) = Some 0 \<and> lowestPrice (?ys ! j) = Some p \<and> 0 < p
        \<longrightarrow> j < i"
    by blast
  with h5 have c: "(0::nat) < 1" by blast
  from h1 h2 a g1 a0 b ev c show ?thesis by blast
qed

text \<open>\<^verbatim>\<open>sort\<close> alone reorders its receiver: the store changes at the reference it is given.\<close>

lemma array_sort_in_place:
  "a < length h \<Longrightarrow>
     snd (array_sort comparefn h a) = a
     \<and> fst (array_sort comparefn h a) ! a = sorted_copy comparefn (h ! a)"
  by (simp add: array_sort_def)

lemma array_sort_mutates_example:
  "fst (array_sort (compareNFT (\<lambda>a b. 0) SortByPrice) example_store 0) ! 0
     = [priced ''2'' (Some 5), priced ''1'' None]"
  by (simp add: array_sort_def SortCompare_def compareNFT_def falsy_def priced_def
      example_store_def example_entries_def)

text \<open>
  C9. For every store, filter string and sort key, computing the view leaves the array
  of entries as it was, with every other array that existed before: the view is a
  new array, at a new reference, holding the filtered and sorted entries. (The spread
  and \<^verbatim>\<open>filter\<close> allocate; \<^verbatim>\<open>sort\<close> reorders the array that \<^verbatim>\<open>filter\<close> allocated.)
\<close>

theorem view_leaves_entries_unchanged:
  assumes "nftsRef < length h"
  shows "fst (filteredAndSortedNFTs lc flt sortBy h nftsRef) ! nftsRef = h ! nftsRef
   \<and> take (length h) (fst (filteredAndSortedNFTs lc flt sortBy h nftsRef)) = h
   \<and> snd (filteredAndSortedNFTs lc flt sortBy h nftsRef) \<noteq> nftsRef
   \<and> snd (filteredAndSortedNFTs lc flt sortBy h nftsRef)
       < length (fst (filteredAndSortedNFTs lc flt sortBy h nftsRef))
   \<and> fst (filteredAndSortedNFTs lc flt sortBy h nftsRef)
         ! snd (filteredAndSortedNFTs lc flt sortBy h nftsRef)
       = view_of lc flt sortBy (h ! nftsRef)"
proof -
  let ?copy = "h ! nftsRef"
  let ?filtered = "filter (matches flt) ?copy"
  let ?sorted = "sorted_copy (compareNFT lc sortBy) ?filtered"
  have r: "filteredAndSortedNFTs lc flt sortBy h nftsRef
           = (h @ [?copy, ?sorted], Suc (length h))"
    by (simp add: filteredAndSortedNFTs_def spread_def array_filter_def array_sort_def
        nth_append list_update_append)
  show ?thesis
    using assms by (simp add: r nth_append view_of_def)
qed

theorem view_leaves_entries_unchanged_witness:
  "(0::nat) < length example_store
   \<and> fst (filteredAndSortedNFTs (\<lambda>a b. 0) [] SortByPrice example_store 0) ! 0
       = example_entries
   \<and> filteredAndSortedNFTs (\<lambda>a b. 0) [] SortByPrice example_store 0
       = ([example_entries, example_entries, [priced ''2'' (Some 5), priced ''1'' None]], 2)"
proof -
  have h: "(0::nat) < length example_store"
    by (simp add: example_store_def)
  note t = view_leaves_entries_unchanged [OF h, of "\<lambda>a b. 0" "[]" SortByPrice]
  from t have a: "fst (filteredAndSortedNFTs (\<lambda>a b. 0) [] SortByPrice example_store 0) ! 0
      = example_store ! 0"
    by blast
  have m: "matches [] nft" for nft
    by (cases "toLowerCase (name nft)")
      (simp_all add: matches_def includes_string_def toLowerCase_def)
  have b: "filteredAndSortedNFTs (\<lambda>a b. 0) [] SortByPrice example_store 0
       = ([example_entries, example_entries, [priced ''2'' (Some 5), priced ''1'' None]], 2)"
    by (simp add: filteredAndSortedNFTs_def spread_def array_filter_def array_sort_def m
        SortCompare_def compareNFT_def falsy_def priced_def example_store_def
        example_entries_def)
  from h a b show ?thesis
    by (simp add: example_store_def)
qed

end
